theory Spec2Isabelle
  imports Main "HOL-Library.Word" "HOL-Library.Signed_Division"
begin

unbundle bit_operations_syntax

section \<open>The packet sender of libtins (src/packet\_sender.cpp)\<close>

text \<open>
  A shallow embedding of \<^verbatim>\<open>Tins::PacketSender\<close>. The class is compiled in several variants,
  selected by preprocessor symbols; the variant is a parameter of the model. Operating-system
  calls are answered by an environment and recorded in a log, exceptions are values, and
  the loops that need not end are a partial function (the search for a free capture
  device), a function with an outcome of its own for a walk that stands still, and a
  function with fuel (the wait for a reply).
\<close>

subsection \<open>Machine types\<close>

text \<open>
  The POSIX variants are LP64: \<^verbatim>\<open>long\<close>, \<^verbatim>\<open>time_t\<close>, \<^verbatim>\<open>suseconds_t\<close> and \<^verbatim>\<open>ssize_t\<close> have 64
  bits, \<^verbatim>\<open>int\<close> and \<^verbatim>\<open>uint32_t\<close> 32. On Windows \<^verbatim>\<open>long\<close> has 32 bits; the arithmetic of that
  variant is given with the receive loop, the only place where it differs. Words wrap around;
  \<open>sint\<close> reads a signed value. Descriptors and return codes of system calls take part in no
  arithmetic and are plain integers.
\<close>

type_synonym byte = "8 word"
type_synonym u16 = "16 word"
type_synonym u32 = "32 word"
type_synonym cint = "32 word"
type_synonym long = "64 word"

record timeval =
  tv_sec :: long
  tv_usec :: long

text \<open>Division of two \<^verbatim>\<open>long\<close> values truncates towards zero.\<close>

definition long_div :: "long \<Rightarrow> long \<Rightarrow> long" where
  "long_div a b = word_of_int (sint a sdiv sint b)"

subsection \<open>Deadline arithmetic: \<^verbatim>\<open>PacketSender::timeval_subtract\<close>\<close>

text \<open>
  The function with a \<^verbatim>\<open>long\<close> of 64 bits. It writes \<^verbatim>\<open>*result\<close>, updates \<^verbatim>\<open>*y\<close> in place and
  returns an \<^verbatim>\<open>int\<close>; the model returns all three. \<^verbatim>\<open>nsec\<close> is an \<^verbatim>\<open>int\<close>: the quotient is
  narrowed to 32 bits, the product \<^verbatim>\<open>1000000 * nsec\<close> is a 32-bit product, and both are
  sign-extended when they meet a \<^verbatim>\<open>long\<close>.
\<close>

definition timeval_subtract :: "timeval \<Rightarrow> timeval \<Rightarrow> timeval \<times> timeval \<times> cint" where
  "timeval_subtract x y =
    (let y1 = (if tv_usec x <s tv_usec y then
                 (let nsec = (scast (long_div (tv_usec y - tv_usec x) 1000000 + 1) :: cint)
                  in y\<lparr>tv_usec := tv_usec y - scast (1000000 * nsec),
                       tv_sec := tv_sec y + scast nsec\<rparr>)
               else y);
         y2 = (if 1000000 <s tv_usec x - tv_usec y1 then
                 (let nsec = (scast (long_div (tv_usec x - tv_usec y1) 1000000) :: cint)
                  in y1\<lparr>tv_usec := tv_usec y1 + scast (1000000 * nsec),
                        tv_sec := tv_sec y1 - scast nsec\<rparr>)
               else y1);
         result = \<lparr>tv_sec = tv_sec x - tv_sec y2, tv_usec = tv_usec x - tv_usec y2\<rparr>
     in (result, y2, if tv_sec x <s tv_sec y2 then 1 else 0))"

text \<open>Reading timestamps: normalised microseconds, the value in microseconds, the order.\<close>

definition normalized :: "timeval \<Rightarrow> bool" where
  "normalized t \<longleftrightarrow> 0 \<le> sint (tv_usec t) \<and> sint (tv_usec t) < 1000000"

definition clock_range :: "timeval \<Rightarrow> bool" where
  "clock_range t \<longleftrightarrow> - (2 ^ 62) \<le> sint (tv_sec t) \<and> sint (tv_sec t) < 2 ^ 62"

definition micros :: "timeval \<Rightarrow> int" where
  "micros t = sint (tv_sec t) * 1000000 + sint (tv_usec t)"

definition tv_less :: "timeval \<Rightarrow> timeval \<Rightarrow> bool" where
  "tv_less a b \<longleftrightarrow> sint (tv_sec a) < sint (tv_sec b)
      \<or> (sint (tv_sec a) = sint (tv_sec b) \<and> sint (tv_usec a) < sint (tv_usec b))"

subsection \<open>Build variants\<close>

text \<open>
  \<open>BSD\<close> stands for \<^verbatim>\<open>defined(BSD) || defined(__FreeBSD_kernel__)\<close>, \<open>Windows\<close> for
  \<^verbatim>\<open>_WIN32\<close>, \<open>Linux\<close> for neither. \<open>macro_BSD\<close> is \<^verbatim>\<open>defined(BSD)\<close> by itself, which
  \<^verbatim>\<open>recv_l3\<close> tests alone; a build that defines it has the platform \<open>BSD\<close>.
  \<open>have_pcap_sendpacket\<close> is \<^verbatim>\<open>TINS_HAVE_PACKET_SENDER_PCAP_SENDPACKET\<close> and \<open>have_dot11\<close> is
  \<^verbatim>\<open>TINS_HAVE_DOT11\<close>. The link-layer functions are compiled only when \<open>l2_compiled\<close> holds.
\<close>

datatype platform = Linux | BSD | Windows

record build_config =
  platform :: platform
  macro_BSD :: bool
  have_pcap_sendpacket :: bool
  have_dot11 :: bool

definition l2_compiled :: "build_config \<Rightarrow> bool" where
  "l2_compiled cfg \<longleftrightarrow> platform cfg \<noteq> Windows \<or> have_pcap_sendpacket cfg"

subsection \<open>The operating system\<close>

text \<open>
  A network interface is identified by its \<^verbatim>\<open>id()\<close>. Every call that leaves the process is
  appended to the log of the world, and the environment answers the \<open>n\<close>-th entry of the log
  with an \<open>os_answer\<close>, of which each call reads the fields it returns. Calls of the matching
  predicate are logged as well, so that the order of tests and reads can be observed, and so
  is the allocation of the scratch buffer of the BSD variant, which the environment may refuse.
  \<open>stack_bytes\<close> and \<open>stack_timeval\<close> are the indeterminate contents of two locals that the
  code reads without initialising them.
\<close>

type_synonym network_interface = nat

datatype address_family = AF_INET | AF_INET6 | PF_PACKET

datatype ioctl_request = BIOCSETIF | BIOCIMMEDIATE | BIOCGBLEN

datatype event =
    Sys_socket address_family int
  | Sys_setsockopt int
  | Sys_open_bpf int
  | Sys_ioctl int ioctl_request
  | Sys_close int
  | Sys_closesocket int
  | Sys_sendto int "byte list" "byte list"
  | Sys_write int "byte list"
  | Sys_select int "int list" timeval
  | Sys_read int int
  | Sys_recvfrom int int
  | Sys_gettimeofday
  | Sys_time
  | Pcap_create network_interface
  | Pcap_set_promisc int
  | Pcap_activate int
  | Pcap_sendpacket int "byte list"
  | Call_matches_response nat u32
  | Heap_alloc int

record os_answer =
  ret :: int
  data :: "byte list"
  ready :: "int list"
  now :: timeval
  out :: int
  errstr :: string

record world =
  env :: "nat \<Rightarrow> os_answer"
  stack_bytes :: "byte list"
  stack_timeval :: timeval
  log :: "event list"

definition os_call :: "event \<Rightarrow> world \<Rightarrow> os_answer \<times> world" where
  "os_call c w = (env w (length (log w)), w\<lparr>log := log w @ [c]\<rparr>)"

definition note_call :: "event \<Rightarrow> world \<Rightarrow> world" where
  "note_call c w = w\<lparr>log := log w @ [c]\<rparr>"

subsection \<open>Exceptions\<close>

text \<open>
  The exceptions thrown in this file, with the text of \<^verbatim>\<open>make_error_string()\<close> where they
  carry it, the two that the constructor of \<^verbatim>\<open>std::vector\<close> throws (\<^verbatim>\<open>std::length_error\<close>, a
  \<^verbatim>\<open>logic_error\<close>, and \<^verbatim>\<open>std::bad_alloc\<close>), and one constructor for anything else a PDU hook
  may throw.
\<close>

datatype error =
    Socket_open_error string
  | Socket_write_error string
  | Socket_close_error string
  | Invalid_socket_type
  | Runtime_error string
  | Length_error
  | Bad_alloc
  | Other_exception

text \<open>
  Modelled from the spec: the classes are declared in exceptions.h, which is not among the
  sources. Sections 6 and 7 of the specification have every channel error caught by the
  handler for \<^verbatim>\<open>runtime_error\<close> in \<^verbatim>\<open>send_recv\<close>, so each derives from \<^verbatim>\<open>std::runtime_error\<close>.
\<close>

fun is_runtime_error :: "error \<Rightarrow> bool" where
  "is_runtime_error Other_exception = False"
| "is_runtime_error Length_error = False"
| "is_runtime_error Bad_alloc = False"
| "is_runtime_error _ = True"

subsection \<open>The sender object\<close>

text \<open>
  Modelled from the spec: \<^verbatim>\<open>SocketType\<close> is declared in packet\_sender.h, which is not among
  the sources; the kinds are those of section 3 of the specification, under the names this
  file uses, with the sentinel \<^verbatim>\<open>SOCKETS_END\<close> last.
\<close>

datatype socket_type =
  ETHER_SOCKET | IP_TCP_SOCKET | IP_UDP_SOCKET | IP_RAW_SOCKET | IPV6_SOCKET | ICMP_SOCKET
  | SOCKETS_END

fun socket_index :: "socket_type \<Rightarrow> nat" where
  "socket_index ETHER_SOCKET = 0"
| "socket_index IP_TCP_SOCKET = 1"
| "socket_index IP_UDP_SOCKET = 2"
| "socket_index IP_RAW_SOCKET = 3"
| "socket_index IPV6_SOCKET = 4"
| "socket_index ICMP_SOCKET = 5"
| "socket_index SOCKETS_END = 6"

definition INVALID_RAW_SOCKET :: int where
  "INVALID_RAW_SOCKET = - 1"

definition DEFAULT_TIMEOUT :: u32 where
  "DEFAULT_TIMEOUT = 2"

definition IPPROTO_ICMP :: int where "IPPROTO_ICMP = 1"
definition IPPROTO_TCP :: int where "IPPROTO_TCP = 6"
definition IPPROTO_UDP :: int where "IPPROTO_UDP = 17"
definition IPPROTO_RAW :: int where "IPPROTO_RAW = 255"

text \<open>\<^verbatim>\<open>htons(ETH_P_ALL)\<close> on a little-endian machine.\<close>

definition htons_ETH_P_ALL :: int where "htons_ETH_P_ALL = 768"

text \<open>
  The members of the class, written without the underscore that ends their names in the
  source. \<open>ether_socket\<close> is the single descriptor of the Linux variant and
  \<open>ether_socket_bsd\<close> the map from interface to descriptor that the BSD variant declares
  under the same name; \<open>timeout_sec\<close> is the member \<^verbatim>\<open>_timeout\<close>.
\<close>

record packet_sender =
  sockets :: "int list"
  ether_socket :: int
  ether_socket_bsd :: "network_interface \<rightharpoonup> int"
  pcap_handles :: "network_interface \<rightharpoonup> int"
  types :: "socket_type \<rightharpoonup> int"
  timeout_sec :: u32
  timeout_usec :: u32
  default_iface :: network_interface
  buffer_size :: int

type_synonym state = "packet_sender \<times> world"

text \<open>The constructor leaves \<^verbatim>\<open>buffer_size_\<close> uninitialised: its value is an argument here.\<close>

definition PacketSender :: "network_interface \<Rightarrow> u32 \<Rightarrow> u32 \<Rightarrow> int \<Rightarrow> packet_sender" where
  "PacketSender iface recv_timeout usec uninit =
     \<lparr>sockets = replicate (socket_index SOCKETS_END) INVALID_RAW_SOCKET,
      ether_socket = INVALID_RAW_SOCKET,
      ether_socket_bsd = Map.empty,
      pcap_handles = Map.empty,
      types = [IP_TCP_SOCKET \<mapsto> IPPROTO_TCP, IP_UDP_SOCKET \<mapsto> IPPROTO_UDP,
                IP_RAW_SOCKET \<mapsto> IPPROTO_RAW, IPV6_SOCKET \<mapsto> IPPROTO_RAW,
                ICMP_SOCKET \<mapsto> IPPROTO_ICMP],
      timeout_sec = recv_timeout,
      timeout_usec = usec,
      default_iface = iface,
      buffer_size = uninit\<rparr>"

definition set_default_interface :: "network_interface \<Rightarrow> packet_sender \<Rightarrow> packet_sender" where
  "set_default_interface iface s = s\<lparr>default_iface := iface\<rparr>"

definition default_interface :: "packet_sender \<Rightarrow> network_interface" where
  "default_interface s = default_iface s"

definition find_type :: "packet_sender \<Rightarrow> socket_type \<Rightarrow> int" where
  "find_type s type = (case types s type of None \<Rightarrow> - 1 | Some p \<Rightarrow> p)"

subsection \<open>Opening channels\<close>

definition ether_socket_initialized :: "build_config \<Rightarrow> packet_sender \<Rightarrow> network_interface \<Rightarrow> bool" where
  "ether_socket_initialized cfg s iface =
     (if platform cfg = BSD then ether_socket_bsd s iface \<noteq> None
      else ether_socket s \<noteq> INVALID_RAW_SOCKET)"

text \<open>
  \<^verbatim>\<open>make_pcap_handle\<close>: a handle is the integer the library returns, \<open>0\<close> for the null
  pointer.
\<close>

definition make_pcap_handle :: "network_interface \<Rightarrow> world \<Rightarrow> (error + int) \<times> world" where
  "make_pcap_handle iface w =
     (let (a, w1) = os_call (Pcap_create iface) w; handle = ret a in
      if handle = 0 then (Inl (Runtime_error (''Error opening pcap handle: '' @ errstr a)), w1)
      else
        let (b, w2) = os_call (Pcap_set_promisc handle) w1 in
        if ret b < 0
        then (Inl (Runtime_error (''Failed to set pcap handle promisc mode: '' @ errstr b)), w2)
        else
          let (c, w3) = os_call (Pcap_activate handle) w2 in
          if ret c < 0
          then (Inl (Runtime_error (''Failed to activate pcap handle: '' @ errstr c)), w3)
          else (Inr handle, w3))"

text \<open>
  The BSD variant opens \<^verbatim>\<open>/dev/bpf0\<close>, \<^verbatim>\<open>/dev/bpf1\<close>, ... until one opens. The loop has no
  other exit: where no device ever opens it does not return, which is \<open>None\<close>.
\<close>

partial_function (option) probe_bpf :: "int \<Rightarrow> world \<Rightarrow> (os_answer \<times> world) option" where
  "probe_bpf i w =
     (case os_call (Sys_open_bpf i) w of
        (a, w1) \<Rightarrow> if ret a = - 1 then probe_bpf (i + 1) w1 else Some (a, w1))"

declare probe_bpf.simps [code]

text \<open>
  \<^verbatim>\<open>open_l2_socket\<close>. An exception leaves the members and the world as they are at the throw.
  In the BSD variant the test \<^verbatim>\<open>sock == -1\<close> after the loop is kept although the loop only
  ends with another value. The error text is that of \<^verbatim>\<open>errno\<close>, which a failing \<^verbatim>\<open>close\<close>
  overwrites.
\<close>

definition open_l2_socket ::
  "build_config \<Rightarrow> network_interface \<Rightarrow> state \<Rightarrow> (error option \<times> state) option" where
  "open_l2_socket cfg iface st =
     (case st of (s, w) \<Rightarrow>
        if have_pcap_sendpacket cfg then
          (if pcap_handles s iface = None then
             (case make_pcap_handle iface w of
                (Inl e, w1) \<Rightarrow> Some (Some e, (s, w1))
              | (Inr handle, w1) \<Rightarrow>
                  Some (None, (s\<lparr>pcap_handles := (pcap_handles s)(iface \<mapsto> handle)\<rparr>, w1)))
           else Some (None, (s, w)))
        else if platform cfg = BSD then
          (case probe_bpf 0 w of
             None \<Rightarrow> None
           | Some (a, w1) \<Rightarrow>
               (let sock = ret a in
                if sock = - 1 then Some (Some (Socket_open_error (errstr a)), (s, w1))
                else
                  let (b, w2) = os_call (Sys_ioctl sock BIOCSETIF) w1 in
                  if ret b < 0 then
                    (let (c, w3) = os_call (Sys_close sock) w2 in
                     Some (Some (Socket_open_error (if ret c = - 1 then errstr c else errstr b)),
                           (s, w3)))
                  else
                    let (c, w3) = os_call (Sys_ioctl sock BIOCIMMEDIATE) w2 in
                    if ret c < 0 then Some (Some (Socket_open_error (errstr c)), (s, w3))
                    else
                      let (d, w4) = os_call (Sys_ioctl sock BIOCGBLEN) w3 in
                      if ret d < 0 then Some (Some (Socket_open_error (errstr d)), (s, w4))
                      else
                        Some (None,
                              (s\<lparr>buffer_size := out d,
                                 ether_socket_bsd := (ether_socket_bsd s)(iface \<mapsto> sock)\<rparr>,
                               w4))))
        else if ether_socket s = INVALID_RAW_SOCKET then
          (let (a, w1) = os_call (Sys_socket PF_PACKET htons_ETH_P_ALL) w;
               s1 = s\<lparr>ether_socket := ret a\<rparr> in
           if ether_socket s1 = - 1 then Some (Some (Socket_open_error (errstr a)), (s1, w1))
           else Some (None, (s1, w1)))
        else Some (None, (s, w)))"

text \<open>
  \<^verbatim>\<open>get_ether_socket\<close>. In the BSD variant the result is \<^verbatim>\<open>ether_socket_[iface.id()]\<close>, and
  \<^verbatim>\<open>operator[]\<close> of a map inserts the value \<open>0\<close> under a key that is absent.
\<close>

definition get_ether_socket ::
  "build_config \<Rightarrow> network_interface \<Rightarrow> state \<Rightarrow> ((error + int) \<times> state) option" where
  "get_ether_socket cfg iface st =
     (case (if \<not> ether_socket_initialized cfg (fst st) iface then open_l2_socket cfg iface st
            else Some (None, st)) of
        None \<Rightarrow> None
      | Some (Some e, st1) \<Rightarrow> Some (Inl e, st1)
      | Some (None, (s1, w1)) \<Rightarrow>
          if platform cfg = BSD then
            (case ether_socket_bsd s1 iface of
               Some sock \<Rightarrow> Some (Inr sock, (s1, w1))
             | None \<Rightarrow>
                 Some (Inr 0, (s1\<lparr>ether_socket_bsd := (ether_socket_bsd s1)(iface \<mapsto> 0)\<rparr>, w1)))
          else Some (Inr (ether_socket s1), (s1, w1)))"

text \<open>
  \<^verbatim>\<open>open_l3_socket\<close>. On Windows \<^verbatim>\<open>socket_type\<close> is the unsigned \<^verbatim>\<open>SOCKET\<close>, so the test
  \<^verbatim>\<open>sockfd < 0\<close> is never true there; \<open>ret\<close> is the value after the cast to \<^verbatim>\<open>int\<close>.
\<close>

definition open_l3_socket :: "build_config \<Rightarrow> socket_type \<Rightarrow> state \<Rightarrow> error option \<times> state" where
  "open_l3_socket cfg type st =
     (case st of (s, w) \<Rightarrow>
        let socktype = find_type s type in
        if socktype = - 1 then (Some Invalid_socket_type, (s, w))
        else if sockets s ! socket_index type = INVALID_RAW_SOCKET then
          (let (a, w1) = os_call (Sys_socket (if type = IPV6_SOCKET then AF_INET6 else AF_INET)
                                    socktype) w;
               sockfd = ret a in
           if platform cfg \<noteq> Windows \<and> sockfd < 0
           then (Some (Socket_open_error (errstr a)), (s, w1))
           else
             let (b, w2) = os_call (Sys_setsockopt sockfd) w1 in
             (None, (s\<lparr>sockets := (sockets s)[socket_index type := sockfd]\<rparr>, w2)))
        else (None, (s, w)))"

subsection \<open>Closing channels\<close>

definition close_socket ::
  "build_config \<Rightarrow> socket_type \<Rightarrow> network_interface \<Rightarrow> state \<Rightarrow> error option \<times> state" where
  "close_socket cfg type iface st =
     (case st of (s, w) \<Rightarrow>
        if type = ETHER_SOCKET then
          (if platform cfg = BSD then
             (case ether_socket_bsd s iface of
                None \<Rightarrow> (Some Invalid_socket_type, (s, w))
              | Some sock \<Rightarrow>
                  let (a, w1) = os_call (Sys_close sock) w in
                  if ret a = - 1 then (Some (Socket_close_error (errstr a)), (s, w1))
                  else (None, (s\<lparr>ether_socket_bsd := (ether_socket_bsd s)(iface := None)\<rparr>, w1)))
           else if platform cfg \<noteq> Windows then
             (if ether_socket s = INVALID_RAW_SOCKET then (Some Invalid_socket_type, (s, w))
              else
                let (a, w1) = os_call (Sys_close (ether_socket s)) w in
                if ret a = - 1 then (Some (Socket_close_error (errstr a)), (s, w1))
                else (None, (s\<lparr>ether_socket := INVALID_RAW_SOCKET\<rparr>, w1)))
           else (None, (s, w)))
        else
          (if socket_index type \<ge> socket_index SOCKETS_END
              \<or> sockets s ! socket_index type = INVALID_RAW_SOCKET
           then (Some Invalid_socket_type, (s, w))
           else if platform cfg \<noteq> Windows then
             (let (a, w1) = os_call (Sys_close (sockets s ! socket_index type)) w in
              if ret a = - 1 then (Some (Socket_close_error (errstr a)), (s, w1))
              else (None, (s\<lparr>sockets := (sockets s)[socket_index type := INVALID_RAW_SOCKET]\<rparr>, w1)))
           else
             (let (a, w1) = os_call (Sys_closesocket (sockets s ! socket_index type)) w in
              (None, (s\<lparr>sockets := (sockets s)[socket_index type := INVALID_RAW_SOCKET]\<rparr>, w1)))))"

text \<open>
  The pool: the channel that the sender holds for a kind and an interface, if any. The
  link-layer channel is what \<^verbatim>\<open>send_l2\<close> transmits on: the capture handle of the interface
  in a build with the capture library, else the descriptor of the interface in the BSD
  variant and the single descriptor in the Linux variant; the Windows variant has no such
  member. The interface tells channels apart only for the link layer, with the capture
  library or in the BSD variant. \<open>pool_ok\<close> is the size that the constructor gives the
  vector.
\<close>

definition channel_of ::
  "build_config \<Rightarrow> packet_sender \<Rightarrow> socket_type \<Rightarrow> network_interface \<Rightarrow> int option" where
  "channel_of cfg s type iface =
     (if type = ETHER_SOCKET then
        (if have_pcap_sendpacket cfg then pcap_handles s iface
         else if platform cfg = BSD then ether_socket_bsd s iface
         else if platform cfg = Windows \<or> ether_socket s = INVALID_RAW_SOCKET then None
         else Some (ether_socket s))
      else if type = SOCKETS_END \<or> sockets s ! socket_index type = INVALID_RAW_SOCKET then None
      else Some (sockets s ! socket_index type))"

definition same_channel ::
  "build_config \<Rightarrow> socket_type \<Rightarrow> network_interface \<Rightarrow> socket_type \<Rightarrow> network_interface
     \<Rightarrow> bool" where
  "same_channel cfg type iface type' iface' \<longleftrightarrow>
     type = type'
     \<and> (type = ETHER_SOCKET \<and> (have_pcap_sendpacket cfg \<or> platform cfg = BSD) \<longrightarrow> iface = iface')"

definition pool_ok :: "packet_sender \<Rightarrow> bool" where
  "pool_ok s \<longleftrightarrow> length (sockets s) = socket_index SOCKETS_END"

text \<open>The calls that hand bytes to the network.\<close>

fun is_write :: "event \<Rightarrow> bool" where
  "is_write (Sys_sendto fd buffer link_addr) = True"
| "is_write (Sys_write fd buffer) = True"
| "is_write (Pcap_sendpacket handle buffer) = True"
| "is_write _ = False"

subsection \<open>Protocol data units\<close>

text \<open>
  Modelled from the spec: the class \<^verbatim>\<open>PDU\<close> is declared in pdu.h, which is not among the
  sources (section 6 of the specification lists what the sender consumes). The sender uses
  the type of a PDU, its flag test, its serialisation, its matching predicate and its two
  virtual hooks \<^verbatim>\<open>send(sender, iface)\<close> and \<^verbatim>\<open>recv_response(sender, iface)\<close>, which act on the
  sender and on the world and may throw. \<open>'r\<close> is the type of the objects that
  \<^verbatim>\<open>Internals::pdu_from_flag\<close> builds. The matching predicate and the factory receive the
  memory from their pointer argument to the end of the buffer, and the length as the
  unsigned 32-bit \<^verbatim>\<open>total_sz\<close>.
\<close>

datatype pdu_type = ETHERNET_II | DOT11 | RADIOTAP | IEEE802_3 | Other_pdu nat

record 'r pdu =
  pdu_type :: pdu_type
  matches_flag :: "pdu_type \<Rightarrow> bool"
  serialize :: "byte list"
  matches_response :: "byte list \<Rightarrow> u32 \<Rightarrow> bool"
  pdu_send :: "network_interface \<Rightarrow> state \<Rightarrow> error option \<times> state"
  pdu_recv_response :: "network_interface \<Rightarrow> state \<Rightarrow> (error + 'r option) \<times> state"

subsection \<open>Sending\<close>

text \<open>
  \<^verbatim>\<open>send_l2\<close>. With the capture library the buffer is handed over whatever its size;
  otherwise the write is guarded by \<^verbatim>\<open>!buffer.empty()\<close>.
\<close>

definition send_l2 ::
  "build_config \<Rightarrow> 'r pdu \<Rightarrow> byte list \<Rightarrow> network_interface \<Rightarrow> state
     \<Rightarrow> (error option \<times> state) option" where
  "send_l2 cfg pdu link_addr iface st =
     (let buffer = serialize pdu in
      if have_pcap_sendpacket cfg then
        (case open_l2_socket cfg iface st of
           None \<Rightarrow> None
         | Some (Some e, st1) \<Rightarrow> Some (Some e, st1)
         | Some (None, (s1, w1)) \<Rightarrow>
             (let handle = (case pcap_handles s1 iface of Some h \<Rightarrow> h | None \<Rightarrow> 0);
                  (a, w2) = os_call (Pcap_sendpacket handle buffer) w1 in
              if ret a \<noteq> 0
              then Some (Some (Runtime_error (''Failed to send packet: '' @ errstr a)), (s1, w2))
              else Some (None, (s1, w2))))
      else
        (case get_ether_socket cfg iface st of
           None \<Rightarrow> None
         | Some (Inl e, st1) \<Rightarrow> Some (Some e, st1)
         | Some (Inr sock, (s1, w1)) \<Rightarrow>
             if buffer \<noteq> [] then
               (let (a, w2) = os_call (if platform cfg = BSD then Sys_write sock buffer
                                       else Sys_sendto sock buffer link_addr) w1 in
                if ret a = - 1 then Some (Some (Socket_write_error (errstr a)), (s1, w2))
                else Some (None, (s1, w2)))
             else Some (None, (s1, w1))))"

definition send_l3 ::
  "build_config \<Rightarrow> 'r pdu \<Rightarrow> byte list \<Rightarrow> socket_type \<Rightarrow> state \<Rightarrow> error option \<times> state" where
  "send_l3 cfg pdu link_addr type st =
     (case open_l3_socket cfg type st of
        (Some e, st1) \<Rightarrow> (Some e, st1)
      | (None, (s1, w1)) \<Rightarrow>
          (let sock = sockets s1 ! socket_index type;
               buffer = serialize pdu;
               (a, w2) = os_call (Sys_sendto sock buffer link_addr) w1 in
           if ret a = - 1 then (Some (Socket_write_error (errstr a)), (s1, w2))
           else (None, (s1, w2))))"

text \<open>\<^verbatim>\<open>send(PDU&)\<close>: the hook of the PDU, on the default interface.\<close>

definition send_default :: "'r pdu \<Rightarrow> state \<Rightarrow> error option \<times> state" where
  "send_default pdu st = pdu_send pdu (default_iface (fst st)) st"

text \<open>
  Modelled from the spec: the member template \<^verbatim>\<open>send<T>(pdu, iface)\<close> is defined in
  packet\_sender.h, which is not among the sources. It casts the PDU to \<^verbatim>\<open>T\<close> and calls its
  virtual \<^verbatim>\<open>send\<close> with the interface it was given (section 4.2: link-layer transmit on
  that interface).
\<close>

definition send_as :: "pdu_type \<Rightarrow> 'r pdu \<Rightarrow> network_interface \<Rightarrow> state \<Rightarrow> error option \<times> state" where
  "send_as T pdu iface st = pdu_send pdu iface st"

text \<open>\<^verbatim>\<open>send(PDU&, const NetworkInterface&)\<close>.\<close>

definition send ::
  "build_config \<Rightarrow> 'r pdu \<Rightarrow> network_interface \<Rightarrow> state \<Rightarrow> error option \<times> state" where
  "send cfg pdu iface st =
     (if matches_flag pdu ETHERNET_II then send_as ETHERNET_II pdu iface st
      else if have_dot11 cfg \<and> matches_flag pdu DOT11 then send_as DOT11 pdu iface st
      else if have_dot11 cfg \<and> matches_flag pdu RADIOTAP then send_as RADIOTAP pdu iface st
      else if matches_flag pdu IEEE802_3 then send_as IEEE802_3 pdu iface st
      else send_default pdu st)"

text \<open>\<^verbatim>\<open>send_recv\<close>: the handler catches \<^verbatim>\<open>runtime_error\<close> and what derives from it.\<close>

definition send_recv ::
  "'r pdu \<Rightarrow> network_interface \<Rightarrow> state \<Rightarrow> (error + 'r option) \<times> state" where
  "send_recv pdu iface st =
     (case pdu_send pdu iface st of
        (Some e, st1) \<Rightarrow> if is_runtime_error e then (Inr None, st1) else (Inl e, st1)
      | (None, st1) \<Rightarrow> pdu_recv_response pdu iface st1)"

definition send_recv_default :: "'r pdu \<Rightarrow> state \<Rightarrow> (error + 'r option) \<times> state" where
  "send_recv_default pdu st = send_recv pdu (default_iface (fst st)) st"

subsection \<open>Receiving: \<^verbatim>\<open>PacketSender::recv_match_loop\<close>\<close>

text \<open>
  The layout of \<^verbatim>\<open>struct bpf_hdr\<close> and the alignment \<^verbatim>\<open>BPF_ALIGNMENT\<close> belong to the system
  headers: \<open>decode_hdr\<close> reads the two fields the loop uses from the memory at a pointer, and
  \<^verbatim>\<open>BPF_WORDALIGN\<close> rounds up to the next multiple of the alignment. The sum
  \<^verbatim>\<open>bh_hdrlen + bh_caplen\<close> is a sum of unsigned 32-bit values.
\<close>

record bpf_hdr =
  bh_caplen :: u32
  bh_hdrlen :: u16

record bpf_abi =
  decode_hdr :: "byte list \<Rightarrow> bpf_hdr"
  BPF_ALIGNMENT :: nat

definition BPF_WORDALIGN :: "bpf_abi \<Rightarrow> u32 \<Rightarrow> nat" where
  "BPF_WORDALIGN abi x =
     ((unat x + (BPF_ALIGNMENT abi - 1)) div BPF_ALIGNMENT abi) * BPF_ALIGNMENT abi"

text \<open>
  What the reads of one descriptor give: a reply, nothing, or a walk over the records that
  never ends. The walk stands still when a record declares the length \<open>0\<close>; the predicate
  then sees the same bytes for ever, so the loop does not return.
\<close>

datatype 'r scan = Matched 'r | No_match | Spins

function bpf_walk ::
  "bpf_abi \<Rightarrow> 'r pdu \<Rightarrow> (pdu_type \<Rightarrow> byte list \<Rightarrow> u32 \<Rightarrow> 'r) \<Rightarrow> byte list \<Rightarrow> int \<Rightarrow> nat \<Rightarrow> world
     \<Rightarrow> 'r scan \<times> world" where
  "bpf_walk abi pdu pdu_from_flag buffer sz ptr w =
     (if int ptr < sz then
        (let bpf_header = decode_hdr abi (drop ptr buffer);
             pkt_start = ptr + unat (bh_hdrlen bpf_header);
             w1 = note_call (Call_matches_response pkt_start (bh_caplen bpf_header)) w
         in if matches_response pdu (drop pkt_start buffer) (bh_caplen bpf_header)
            then (Matched (pdu_from_flag (pdu_type pdu) (drop pkt_start buffer)
                             (bh_caplen bpf_header)), w1)
            else
              (let step = BPF_WORDALIGN abi (ucast (bh_hdrlen bpf_header) + bh_caplen bpf_header)
               in if step = 0 then (Spins, w1)
                  else bpf_walk abi pdu pdu_from_flag buffer sz (ptr + step) w1))
      else (No_match, w))"
  by pat_completeness auto
termination
  by (relation "measure (\<lambda>(abi, pdu, ff, buffer, sz, ptr, w). nat (sz - int ptr))") auto

declare bpf_walk.simps [simp del]

text \<open>
  A read of \<open>sz\<close> bytes overwrites the front of the scratch buffer, of capacity \<open>cap\<close>, and
  leaves the rest as it was; a read that fails or returns \<open>0\<close> leaves all of it.
\<close>

definition store_bytes :: "nat \<Rightarrow> byte list \<Rightarrow> int \<Rightarrow> byte list \<Rightarrow> byte list" where
  "store_bytes cap buffer sz d =
     (if sz \<le> 0 then buffer
      else let got = take (min (nat sz) cap) d in got @ drop (length got) buffer)"

text \<open>
  The body of \<^verbatim>\<open>if (FD_ISSET(*it, &readfds))\<close>. Without BPF the result of \<^verbatim>\<open>recvfrom\<close>, an
  \<^verbatim>\<open>ssize_t\<close>, is passed for the parameter \<^verbatim>\<open>uint32_t total_sz\<close> of the predicate.
\<close>

definition read_candidates ::
  "build_config \<Rightarrow> bpf_abi \<Rightarrow> packet_sender \<Rightarrow> 'r pdu \<Rightarrow> (pdu_type \<Rightarrow> byte list \<Rightarrow> u32 \<Rightarrow> 'r)
     \<Rightarrow> int \<Rightarrow> byte list \<Rightarrow> world \<Rightarrow> 'r scan \<times> byte list \<times> world" where
  "read_candidates cfg abi s pdu pdu_from_flag fd buffer w =
     (if platform cfg = BSD then
        (let (a, w1) = os_call (Sys_read fd (buffer_size s)) w;
             sz = ret a;
             buffer1 = store_bytes (nat (buffer_size s)) buffer sz (data a);
             (r, w2) = bpf_walk abi pdu pdu_from_flag buffer1 sz 0 w1
         in (r, buffer1, w2))
      else
        (let (a, w1) = os_call (Sys_recvfrom fd 2048) w;
             sz = ret a;
             buffer1 = store_bytes 2048 buffer sz (data a);
             total_sz = (word_of_int sz :: u32);
             w2 = note_call (Call_matches_response 0 total_sz) w1
         in if matches_response pdu buffer1 total_sz
            then (Matched (pdu_from_flag (pdu_type pdu) buffer1 total_sz), buffer1, w2)
            else (No_match, buffer1, w2)))"

text \<open>The loop over the descriptors, in the order of the vector.\<close>

fun scan_sockets ::
  "build_config \<Rightarrow> bpf_abi \<Rightarrow> packet_sender \<Rightarrow> 'r pdu \<Rightarrow> (pdu_type \<Rightarrow> byte list \<Rightarrow> u32 \<Rightarrow> 'r)
     \<Rightarrow> int list \<Rightarrow> int list \<Rightarrow> byte list \<Rightarrow> world \<Rightarrow> 'r scan \<times> byte list \<times> world" where
  "scan_sockets cfg abi s pdu pdu_from_flag [] readfds buffer w = (No_match, buffer, w)"
| "scan_sockets cfg abi s pdu pdu_from_flag (fd # fds) readfds buffer w =
     (if fd \<in> set readfds then
        (case read_candidates cfg abi s pdu pdu_from_flag fd buffer w of
           (No_match, buffer1, w1) \<Rightarrow> scan_sockets cfg abi s pdu pdu_from_flag fds readfds buffer1 w1
         | (r, buffer1, w1) \<Rightarrow> (r, buffer1, w1))
      else scan_sockets cfg abi s pdu pdu_from_flag fds readfds buffer w)"

definition max_fd_of :: "int list \<Rightarrow> int" where
  "max_fd_of fds = fold (\<lambda>fd max_fd. max max_fd fd) fds 0"

text \<open>
  On Windows \<^verbatim>\<open>long\<close> has 32 bits, and so has each field of a \<^verbatim>\<open>struct timeval\<close>. Such a
  value is kept as the 64-bit word that extends its sign: \<open>long32\<close> is the conversion of a
  wider value to it, \<open>as_long\<close> the conversion to the \<^verbatim>\<open>long\<close> of the variant, and
  \<open>timeval_subtract_win\<close> is \<^verbatim>\<open>timeval_subtract\<close> with each value of type \<^verbatim>\<open>long\<close> narrowed:
  the differences that are compared or divided, and what is stored in a field.
\<close>

definition long32 :: "long \<Rightarrow> long" where
  "long32 v = scast (ucast v :: 32 word)"

definition as_long :: "build_config \<Rightarrow> long \<Rightarrow> long" where
  "as_long cfg v = (if platform cfg = Windows then long32 v else v)"

definition timeval_subtract_win :: "timeval \<Rightarrow> timeval \<Rightarrow> timeval \<times> timeval \<times> cint" where
  "timeval_subtract_win x y =
    (let y1 = (if tv_usec x <s tv_usec y then
                 (let nsec = (scast (long_div (long32 (tv_usec y - tv_usec x)) 1000000 + 1) :: cint)
                  in y\<lparr>tv_usec := long32 (tv_usec y - scast (1000000 * nsec)),
                       tv_sec := long32 (tv_sec y + scast nsec)\<rparr>)
               else y);
         y2 = (if 1000000 <s long32 (tv_usec x - tv_usec y1) then
                 (let nsec = (scast (long_div (long32 (tv_usec x - tv_usec y1)) 1000000) :: cint)
                  in y1\<lparr>tv_usec := long32 (tv_usec y1 + scast (1000000 * nsec)),
                        tv_sec := long32 (tv_sec y1 - scast nsec)\<rparr>)
               else y1);
         result = \<lparr>tv_sec = long32 (tv_sec x - tv_sec y2),
                   tv_usec = long32 (tv_usec x - tv_usec y2)\<rparr>
     in (result, y2, if tv_sec x <s tv_sec y2 then 1 else 0))"

definition timeval_subtract_on ::
  "build_config \<Rightarrow> timeval \<Rightarrow> timeval \<Rightarrow> timeval \<times> timeval \<times> cint" where
  "timeval_subtract_on cfg x y =
     (if platform cfg = Windows then timeval_subtract_win x y else timeval_subtract x y)"

text \<open>
  The time after the reads. On Windows \<^verbatim>\<open>this_time\<close> is never written before it is used
  (the source has the comment \<^verbatim>\<open>fixme\<close> in the place of the reading).
\<close>

definition current_time :: "build_config \<Rightarrow> world \<Rightarrow> timeval \<times> world" where
  "current_time cfg w =
     (if platform cfg = Windows
      then (\<lparr>tv_sec = long32 (tv_sec (stack_timeval w)),
              tv_usec = long32 (tv_usec (stack_timeval w))\<rparr>, w)
      else let (a, w1) = os_call Sys_gettimeofday w in (now a, w1))"

text \<open>
  The \<^verbatim>\<open>while (true)\<close> loop, with fuel: \<open>None\<close> is a run that has not returned, because the
  fuel is spent or because a walk spins. \<open>Some None\<close> is the null pointer and \<open>Some (Some r)\<close> a
  reply. The world is returned in each case. \<^verbatim>\<open>select\<close> leaves in \<^verbatim>\<open>readfds\<close> the descriptors
  that the answer lists as \<open>ready\<close>.
\<close>

fun recv_loop ::
  "nat \<Rightarrow> build_config \<Rightarrow> bpf_abi \<Rightarrow> packet_sender \<Rightarrow> 'r pdu
     \<Rightarrow> (pdu_type \<Rightarrow> byte list \<Rightarrow> u32 \<Rightarrow> 'r) \<Rightarrow> int list \<Rightarrow> timeval \<Rightarrow> timeval \<Rightarrow> byte list \<Rightarrow> world
     \<Rightarrow> 'r option option \<times> world" where
  "recv_loop 0 cfg abi s pdu pdu_from_flag fds end_time timeout buffer w = (None, w)"
| "recv_loop (Suc n) cfg abi s pdu pdu_from_flag fds end_time timeout buffer w =
     (let (a, w1) = os_call (Sys_select (max_fd_of fds + 1) fds timeout) w;
          read = ret a
      in if read = - 1 then (Some None, w1)
         else
           (case (if read > 0 then scan_sockets cfg abi s pdu pdu_from_flag fds (ready a) buffer w1
                  else (No_match, buffer, w1)) of
              (Matched r, buffer1, w2) \<Rightarrow> (Some (Some r), w2)
            | (Spins, buffer1, w2) \<Rightarrow> (None, w2)
            | (No_match, buffer1, w2) \<Rightarrow>
                (let (this_time, w3) = current_time cfg w2;
                     (diff, y, expired) = timeval_subtract_on cfg end_time this_time
                 in if expired \<noteq> 0 then (Some None, w3)
                    else recv_loop n cfg abi s pdu pdu_from_flag fds end_time diff buffer1 w3)))"

text \<open>
  \<^verbatim>\<open>recv_match_loop\<close>. With BPF the scratch buffer is a \<^verbatim>\<open>vector<uint8_t>\<close> of \<^verbatim>\<open>buffer_size_\<close>
  zeroed bytes: the \<^verbatim>\<open>int\<close> is converted to \<^verbatim>\<open>size_t\<close>, so that a negative value exceeds
  \<^verbatim>\<open>max_size()\<close> and the constructor throws \<^verbatim>\<open>std::length_error\<close>; a length of zero allocates
  nothing, and any other allocation throws \<^verbatim>\<open>std::bad_alloc\<close> where the environment refuses
  it. Without BPF the buffer is an uninitialised array of 2048 bytes. Then the deadline,
  then the loop. \<open>Some (Inl e)\<close> is an exception that leaves the function, \<open>Some (Inr r)\<close> the
  pointer it returns and \<open>None\<close> a run that has not returned.
\<close>

definition alloc_buffer ::
  "build_config \<Rightarrow> packet_sender \<Rightarrow> world \<Rightarrow> (error + byte list) \<times> world" where
  "alloc_buffer cfg s w =
     (if platform cfg = BSD then
        (if buffer_size s < 0 then (Inl Length_error, w)
         else if buffer_size s = 0 then (Inr [], w)
         else
           let (m, w1) = os_call (Heap_alloc (buffer_size s)) w in
           if ret m = - 1 then (Inl Bad_alloc, w1)
           else (Inr (replicate (nat (buffer_size s)) 0), w1))
      else (Inr (take 2048 (stack_bytes w)), w))"

definition recv_match_loop ::
  "nat \<Rightarrow> build_config \<Rightarrow> bpf_abi \<Rightarrow> 'r pdu \<Rightarrow> (pdu_type \<Rightarrow> byte list \<Rightarrow> u32 \<Rightarrow> 'r) \<Rightarrow> int list
     \<Rightarrow> state \<Rightarrow> (error + 'r option) option \<times> state" where
  "recv_match_loop fuel cfg abi pdu pdu_from_flag fds st =
     (case st of (s, w) \<Rightarrow>
        (case alloc_buffer cfg s w of
           (Inl e, w0) \<Rightarrow> (Some (Inl e), (s, w0))
         | (Inr buffer, w0) \<Rightarrow>
             let (a, w1) = os_call Sys_time w0;
                 timeout = \<lparr>tv_sec = as_long cfg (ucast (timeout_sec s)),
                            tv_usec = as_long cfg (ucast (timeout_usec s))\<rparr>;
                 end_time = \<lparr>tv_sec = as_long cfg (tv_sec (now a) + ucast (timeout_sec s)),
                             tv_usec = as_long cfg (ucast (timeout_usec s))\<rparr>;
                 (r, w2) = recv_loop fuel cfg abi s pdu pdu_from_flag fds end_time timeout buffer w1
             in (map_option Inr r, (s, w2))))"

text \<open>\<^verbatim>\<open>recv_l2\<close>, which is not compiled on Windows.\<close>

definition recv_l2 ::
  "nat \<Rightarrow> build_config \<Rightarrow> bpf_abi \<Rightarrow> 'r pdu \<Rightarrow> (pdu_type \<Rightarrow> byte list \<Rightarrow> u32 \<Rightarrow> 'r)
     \<Rightarrow> network_interface \<Rightarrow> state \<Rightarrow> ((error + 'r option) \<times> state) option" where
  "recv_l2 fuel cfg abi pdu pdu_from_flag iface st =
     (case get_ether_socket cfg iface st of
        None \<Rightarrow> None
      | Some (Inl e, st1) \<Rightarrow> Some (Inl e, st1)
      | Some (Inr sock, st1) \<Rightarrow>
          (case recv_match_loop fuel cfg abi pdu pdu_from_flag [sock] st1 of
             (None, st2) \<Rightarrow> None
           | (Some r, st2) \<Rightarrow> Some (r, st2)))"

text \<open>
  \<^verbatim>\<open>recv_l3\<close>: a TCP or UDP receive also watches the ICMP socket, and throws where the macro
  \<^verbatim>\<open>BSD\<close> is defined.
\<close>

definition recv_l3 ::
  "nat \<Rightarrow> build_config \<Rightarrow> bpf_abi \<Rightarrow> 'r pdu \<Rightarrow> (pdu_type \<Rightarrow> byte list \<Rightarrow> u32 \<Rightarrow> 'r)
     \<Rightarrow> socket_type \<Rightarrow> state \<Rightarrow> ((error + 'r option) \<times> state) option" where
  "recv_l3 fuel cfg abi pdu pdu_from_flag type st =
     (case open_l3_socket cfg type st of
        (Some e, st1) \<Rightarrow> Some (Inl e, st1)
      | (None, st1) \<Rightarrow>
          (case (if type = IP_TCP_SOCKET \<or> type = IP_UDP_SOCKET then
                   (if macro_BSD cfg
                    then (Some (Runtime_error
                                  ''Receiving L3 packets not supported on this platform''), st1)
                    else open_l3_socket cfg ICMP_SOCKET st1)
                 else (None, st1)) of
             (Some e, st2) \<Rightarrow> Some (Inl e, st2)
           | (None, st2) \<Rightarrow>
               (let fds = (if type = IP_TCP_SOCKET \<or> type = IP_UDP_SOCKET
                           then [sockets (fst st1) ! socket_index type,
                                 sockets (fst st2) ! socket_index ICMP_SOCKET]
                           else [sockets (fst st1) ! socket_index type])
                in case recv_match_loop fuel cfg abi pdu pdu_from_flag fds st2 of
                     (None, st3) \<Rightarrow> None
                   | (Some r, st3) \<Rightarrow> Some (r, st3))))"
subsection \<open>Buffers of batched records\<close>

text \<open>
  What it is for a buffer to hold records of the capture device one after the other from
  an offset on: each record is a header, its payload and zero bytes up to the alignment;
  the header decodes to its own length and the length of the payload, which fit their
  fields. \<open>spans_at\<close> lists the payloads by offset and length, and \<open>tested\<close> is a list up to
  and including its first element that a predicate accepts.
\<close>

record bpf_record =
  rec_hdr :: "byte list"
  rec_payload :: "byte list"

definition record_len :: "bpf_record \<Rightarrow> nat" where
  "record_len r = length (rec_hdr r) + length (rec_payload r)"

definition encode_record :: "bpf_abi \<Rightarrow> bpf_record \<Rightarrow> byte list" where
  "encode_record abi r =
     rec_hdr r @ rec_payload r
       @ replicate (BPF_WORDALIGN abi (of_nat (record_len r)) - record_len r) 0"

definition wf_record :: "bpf_abi \<Rightarrow> bpf_record \<Rightarrow> bool" where
  "wf_record abi r \<longleftrightarrow>
     0 < length (rec_hdr r) \<and> length (rec_hdr r) < 2 ^ 16 \<and> record_len r < 2 ^ 32
     \<and> 0 < BPF_ALIGNMENT abi"

fun records_at :: "bpf_abi \<Rightarrow> byte list \<Rightarrow> nat \<Rightarrow> bpf_record list \<Rightarrow> bool" where
  "records_at abi buffer off [] = True"
| "records_at abi buffer off (r # rs) =
     (wf_record abi r
      \<and> decode_hdr abi (drop off buffer)
          = \<lparr>bh_caplen = of_nat (length (rec_payload r)), bh_hdrlen = of_nat (length (rec_hdr r))\<rparr>
      \<and> take (length (encode_record abi r)) (drop off buffer) = encode_record abi r
      \<and> records_at abi buffer (off + length (encode_record abi r)) rs)"

definition records_len :: "bpf_abi \<Rightarrow> bpf_record list \<Rightarrow> nat" where
  "records_len abi rs = sum_list (map (\<lambda>r. length (encode_record abi r)) rs)"

fun spans_at :: "bpf_abi \<Rightarrow> nat \<Rightarrow> bpf_record list \<Rightarrow> (nat \<times> u32) list" where
  "spans_at abi off [] = []"
| "spans_at abi off (r # rs) =
     (off + length (rec_hdr r), of_nat (length (rec_payload r)))
       # spans_at abi (off + length (encode_record abi r)) rs"

fun tested :: "('a \<Rightarrow> bool) \<Rightarrow> 'a list \<Rightarrow> 'a list" where
  "tested P [] = []"
| "tested P (x # xs) = (if P x then [x] else x # tested P xs)"

definition accepts :: "'r pdu \<Rightarrow> byte list \<Rightarrow> nat \<times> u32 \<Rightarrow> bool" where
  "accepts pdu buffer span = matches_response pdu (drop (fst span) buffer) (snd span)"

definition test_event :: "nat \<times> u32 \<Rightarrow> event" where
  "test_event span = Call_matches_response (fst span) (snd span)"

subsection \<open>Clocks and deadlines\<close>







subsection \<open>Example inputs\<close>

text \<open>
  Small concrete worlds and PDUs, on which the theorems below are instantiated. \<open>quiet\<close> is
  the answer of a call that succeeds with the value \<open>0\<close>; \<open>world_of\<close> starts a world with an
  empty log and zeros where the stack is read.
\<close>

definition quiet :: os_answer where
  "quiet = \<lparr>ret = 0, data = [], ready = [], now = \<lparr>tv_sec = 0, tv_usec = 0\<rparr>, out = 0,
            errstr = []\<rparr>"

definition world_of :: "(nat \<Rightarrow> os_answer) \<Rightarrow> world" where
  "world_of e = \<lparr>env = e, stack_bytes = replicate 2048 0,
                 stack_timeval = \<lparr>tv_sec = 0, tv_usec = 0\<rparr>, log = []\<rparr>"

definition linux_cfg :: build_config where
  "linux_cfg = \<lparr>platform = Linux, macro_BSD = False, have_pcap_sendpacket = False,
       have_dot11 = False\<rparr>"

definition bsd_cfg :: build_config where
  "bsd_cfg = \<lparr>platform = BSD, macro_BSD = True, have_pcap_sendpacket = False,
       have_dot11 = False\<rparr>"

definition windows_cfg :: build_config where
  "windows_cfg = \<lparr>platform = Windows, macro_BSD = False, have_pcap_sendpacket = False,
       have_dot11 = False\<rparr>"

text \<open>
  A PDU without link-layer framing whose send hook leaves the interface it was given in the
  log, and a PDU whose send hook throws \<^verbatim>\<open>socket_write_error\<close>.
\<close>

definition tracing_pdu :: "nat pdu" where
  "tracing_pdu =
     \<lparr>pdu_type = Other_pdu 0, matches_flag = (\<lambda>f. False), serialize = [69, 0],
      matches_response = (\<lambda>mem total_sz. False),
      pdu_send = (\<lambda>iface st. (None, (fst st, note_call (Pcap_create iface) (snd st)))),
      pdu_recv_response = (\<lambda>iface st. (Inr None, st))\<rparr>"

definition failing_pdu :: "nat pdu" where
  "failing_pdu =
     \<lparr>pdu_type = Other_pdu 0, matches_flag = (\<lambda>f. False), serialize = [69, 0],
      matches_response = (\<lambda>mem total_sz. True),
      pdu_send = (\<lambda>iface st. (Some (Socket_write_error ''Operation not permitted''), st)),
      pdu_recv_response = (\<lambda>iface st. (Inr (Some 1), st))\<rparr>"

definition fresh_sender :: packet_sender where
  "fresh_sender = PacketSender 0 2 0 0"

definition quiet_world :: world where
  "quiet_world = world_of (\<lambda>n. quiet)"

text \<open>A sender whose raw IP socket is the descriptor \<open>5\<close>.\<close>

definition raw_open_sender :: packet_sender where
  "raw_open_sender = fresh_sender\<lparr>sockets := [- 1, - 1, - 1, 5, - 1, - 1]\<rparr>"

text \<open>A world in which every call fails with \<open>-1\<close>, as for a process without privileges.\<close>

definition denied_world :: world where
  "denied_world = world_of (\<lambda>n. quiet\<lparr>ret := - 1, errstr := ''Operation not permitted''\<rparr>)"

text \<open>
  A world for two calls of \<^verbatim>\<open>open_l2_socket\<close> on BSD: \<^verbatim>\<open>/dev/bpf0\<close> opens as descriptor \<open>3\<close>;
  at the second call it is busy and \<^verbatim>\<open>/dev/bpf1\<close> opens as descriptor \<open>4\<close>. The size of the
  device buffer is 4096.
\<close>

definition bpf_world :: world where
  "bpf_world = world_of (\<lambda>n. if n = 0 then quiet\<lparr>ret := 3\<rparr>
                             else if n = 4 then quiet\<lparr>ret := - 1, errstr := ''Device busy''\<rparr>
                             else if n = 5 then quiet\<lparr>ret := 4\<rparr>
                             else quiet\<lparr>out := 4096\<rparr>)"

text \<open>An Ethernet PDU that serialises to no bytes, and one that serialises to two.\<close>

definition empty_pdu :: "nat pdu" where
  "empty_pdu =
     \<lparr>pdu_type = ETHERNET_II, matches_flag = (\<lambda>f. f = ETHERNET_II), serialize = [],
      matches_response = (\<lambda>mem total_sz. False),
      pdu_send = (\<lambda>iface st. (None, st)),
      pdu_recv_response = (\<lambda>iface st. (Inr None, st))\<rparr>"

definition ether_pdu :: "nat pdu" where
  "ether_pdu = empty_pdu\<lparr>serialize := [1, 2]\<rparr>"

text \<open>A Linux sender whose link-layer socket is the descriptor \<open>4\<close>.\<close>

definition ether_open_sender :: packet_sender where
  "ether_open_sender = fresh_sender\<lparr>ether_socket := 4\<rparr>"

text \<open>
  A capture device: little-endian fields, a header of 18 bytes with the captured length at
  offset 8 and the header length at offset 16, and an alignment of 4. Two records follow,
  with payloads of two and of three bytes, and a PDU whose predicate accepts a payload
  that begins with the byte \<open>204\<close>; a reply is the accepted payload.
\<close>

fun le_word :: "byte list \<Rightarrow> 'a::len word" where
  "le_word [] = 0"
| "le_word (b # bs) = ucast b + 256 * le_word bs"

definition classic_abi :: bpf_abi where
  "classic_abi =
     \<lparr>decode_hdr = (\<lambda>mem. \<lparr>bh_caplen = le_word (take 4 (drop 8 mem)),
                             bh_hdrlen = le_word (take 2 (drop 16 mem))\<rparr>),
      BPF_ALIGNMENT = 4\<rparr>"

definition record_one :: bpf_record where
  "record_one = \<lparr>rec_hdr = [0, 0, 0, 0, 0, 0, 0, 0, 2, 0, 0, 0, 2, 0, 0, 0, 18, 0],
                 rec_payload = [170, 187]\<rparr>"

definition record_two :: bpf_record where
  "record_two = \<lparr>rec_hdr = [0, 0, 0, 0, 0, 0, 0, 0, 3, 0, 0, 0, 3, 0, 0, 0, 18, 0],
                 rec_payload = [204, 221, 238]\<rparr>"

definition two_records :: "byte list" where
  "two_records = [0, 0, 0, 0, 0, 0, 0, 0, 2, 0, 0, 0, 2, 0, 0, 0, 18, 0, 170, 187,
                  0, 0, 0, 0, 0, 0, 0, 0, 3, 0, 0, 0, 3, 0, 0, 0, 18, 0, 204, 221, 238, 0, 0, 0]"

definition picky_pdu :: "byte list pdu" where
  "picky_pdu =
     \<lparr>pdu_type = ETHERNET_II, matches_flag = (\<lambda>f. f = ETHERNET_II), serialize = [1, 2],
      matches_response = (\<lambda>mem total_sz. take 1 mem = [204]),
      pdu_send = (\<lambda>iface st. (None, st)),
      pdu_recv_response = (\<lambda>iface st. (Inr None, st))\<rparr>"

definition payload_of :: "pdu_type \<Rightarrow> byte list \<Rightarrow> u32 \<Rightarrow> byte list" where
  "payload_of t mem total_sz = take (unat total_sz) mem"

text \<open>
  A BSD sender with the descriptor \<open>3\<close> on interface \<open>1\<close> and a device buffer of 48 bytes,
  and a world in which \<^verbatim>\<open>select\<close> reports the descriptor ready and the read returns the
  two records.
\<close>

definition bpf_sender :: packet_sender where
  "bpf_sender = fresh_sender\<lparr>ether_socket_bsd := [1 \<mapsto> 3], buffer_size := 48\<rparr>"

definition batch_world :: world where
  "batch_world = world_of (\<lambda>n. if n = 0 then quiet\<lparr>ret := 1, ready := [3]\<rparr>
                               else if n = 1 then quiet\<lparr>ret := 44, data := two_records\<rparr>
                               else quiet)"

text \<open>
  Worlds for the loop on Linux, with the sender \<open>raw_open_sender\<close> (a timeout of two seconds)
  and the descriptor \<open>5\<close>. In \<open>exact_world\<close> the clock starts at second \<open>100\<close>, nothing is
  ever ready, the first reading after a wait is the deadline itself and the next is a
  second later. In \<open>late_world\<close> nothing is ready and the clock reads second \<open>103\<close>. In
  \<open>stale_world\<close> the descriptor is ready, \<^verbatim>\<open>recvfrom\<close> fails with \<open>-1\<close>, and the scratch buffer
  begins with four bytes left on the stack.
\<close>

definition exact_world :: world where
  "exact_world = world_of (\<lambda>n. if n = 0 then quiet\<lparr>now := \<lparr>tv_sec = 100, tv_usec = 0\<rparr>\<rparr>
                               else if n = 2 then quiet\<lparr>now := \<lparr>tv_sec = 102, tv_usec = 0\<rparr>\<rparr>
                               else if n = 4 then quiet\<lparr>now := \<lparr>tv_sec = 103, tv_usec = 0\<rparr>\<rparr>
                               else quiet)"


definition stale_world :: world where
  "stale_world =
     (world_of (\<lambda>n. if n = 0 then quiet\<lparr>now := \<lparr>tv_sec = 100, tv_usec = 0\<rparr>\<rparr>
                     else if n = 1 then quiet\<lparr>ret := 1, ready := [5]\<rparr>
                     else quiet\<lparr>ret := - 1, errstr := ''Network is down''\<rparr>))
       \<lparr>stack_bytes := [69, 0, 0, 40] @ replicate 2044 0\<rparr>"

text \<open>
  A PDU whose predicate accepts memory that begins with the byte \<open>69\<close> when the length it is
  given is at least that of a header of 20 bytes.
\<close>

definition lenient_pdu :: "byte list pdu" where
  "lenient_pdu =
     \<lparr>pdu_type = Other_pdu 0, matches_flag = (\<lambda>f. False), serialize = [69, 0],
      matches_response = (\<lambda>mem total_sz. 20 \<le> unat total_sz \<and> take 1 mem = [69]),
      pdu_send = (\<lambda>iface st. (None, st)),
      pdu_recv_response = (\<lambda>iface st. (Inr None, st))\<rparr>"


text \<open>
  A sender fresh from the constructor in whose member \<^verbatim>\<open>buffer_size_\<close>, which the constructor
  leaves as it finds it, the value \<open>-1\<close> is found; a world in which \<^verbatim>\<open>socket\<close> returns the
  descriptor \<open>3\<close>; and a sender configured with a timeout of \<open>2\<^sup>3\<^sup>1\<close> seconds whose raw IP
  socket is the descriptor \<open>5\<close>.
\<close>

definition unset_sender :: packet_sender where
  "unset_sender = PacketSender 0 2 0 (- 1)"

definition icmp_world :: world where
  "icmp_world = world_of (\<lambda>n. if n = 0 then quiet\<lparr>ret := 3\<rparr> else quiet)"

definition patient_sender :: packet_sender where
  "patient_sender = (PacketSender 0 2147483648 0 0)\<lparr>sockets := [- 1, - 1, - 1, 5, - 1, - 1]\<rparr>"
section \<open>Deadline arithmetic\<close>

lemma sint_sub_long:
  "- (2 ^ 63) \<le> sint (a::long) - sint b \<Longrightarrow> sint a - sint b < 2 ^ 63
     \<Longrightarrow> sint (a - b) = sint a - sint b"
  by (simp add: sint_word_ariths signed_take_bit_int_eq_self)

lemma sint_add_long:
  "- (2 ^ 63) \<le> sint (a::long) + sint b \<Longrightarrow> sint a + sint b < 2 ^ 63
     \<Longrightarrow> sint (a + b) = sint a + sint b"
  by (simp add: sint_word_ariths signed_take_bit_int_eq_self)

lemma long_div_small:
  assumes "0 \<le> sint a" "sint a < 1000000"
  shows "long_div a 1000000 = 0"
  using assms by (simp add: long_div_def signed_divide_int_def)

lemma usec_diff:
  assumes "normalized x" "normalized y"
  shows "sint (tv_usec x - tv_usec y) = sint (tv_usec x) - sint (tv_usec y)"
  using assms by (intro sint_sub_long) (simp_all add: normalized_def)

lemma usec_borrow:
  assumes nx: "normalized x" and ny: "normalized y"
  shows "sint (tv_usec x - (tv_usec y - 1000000)) = sint (tv_usec x) - sint (tv_usec y) + 1000000"
proof -
  have a: "tv_usec x - (tv_usec y - 1000000) = (tv_usec x - tv_usec y) + 1000000"
    by simp
  have "sint ((tv_usec x - tv_usec y) + 1000000)
          = sint (tv_usec x - tv_usec y) + sint (1000000::long)"
    using nx ny by (intro sint_add_long) (simp_all add: usec_diff normalized_def)
  then show ?thesis
    unfolding a by (simp add: usec_diff [OF nx ny])
qed

text \<open>With normalised operands the first branch borrows exactly one second.\<close>

lemma subtract_borrow:
  assumes nx: "normalized x" and ny: "normalized y" and lt: "tv_usec x <s tv_usec y"
  shows "timeval_subtract x y =
     (\<lparr>tv_sec = tv_sec x - (tv_sec y + 1), tv_usec = tv_usec x - (tv_usec y - 1000000)\<rparr>,
      y\<lparr>tv_usec := tv_usec y - 1000000, tv_sec := tv_sec y + 1\<rparr>,
      if tv_sec x <s tv_sec y + 1 then 1 else 0)"
proof -
  have d: "sint (tv_usec y - tv_usec x) = sint (tv_usec y) - sint (tv_usec x)"
    using usec_diff [OF ny nx] .
  have lt': "sint (tv_usec x) < sint (tv_usec y)"
    using lt by (simp add: word_sless_alt)
  have q: "long_div (tv_usec y - tv_usec x) 1000000 = 0"
    using nx ny lt' by (intro long_div_small) (simp_all add: d normalized_def)
  have n: "\<not> 1000000 <s tv_usec x - (tv_usec y - 1000000)"
    using nx ny lt' by (simp add: word_sless_alt usec_borrow [OF nx ny] normalized_def)
  show ?thesis
    using lt n by (simp add: timeval_subtract_def q Let_def)
qed

text \<open>Otherwise neither branch is taken.\<close>

lemma subtract_plain:
  assumes nx: "normalized x" and ny: "normalized y" and ge: "\<not> tv_usec x <s tv_usec y"
  shows "timeval_subtract x y =
     (\<lparr>tv_sec = tv_sec x - tv_sec y, tv_usec = tv_usec x - tv_usec y\<rparr>, y,
      if tv_sec x <s tv_sec y then 1 else 0)"
proof -
  have n: "\<not> 1000000 <s tv_usec x - tv_usec y"
    using nx ny by (simp add: word_sless_alt usec_diff normalized_def)
  show ?thesis
    using ge n by (simp add: timeval_subtract_def Let_def)
qed

text \<open>
  Claim C1. For a deadline \<open>x\<close> and a time \<open>y\<close> with microseconds in \<open>[0, 1000000)\<close>, and seconds
  that the subtraction cannot take out of the range of \<^verbatim>\<open>long\<close>, \<open>timeval_subtract\<close> returns a
  value other than \<open>0\<close> exactly when the deadline is before the time; when it returns \<open>0\<close>, the
  seconds of the result are not negative, its microseconds are in \<open>[0, 1000000)\<close>, and the
  result is the exact difference of deadline and time.
\<close>

theorem timeval_subtract_correct:
  assumes nx: "normalized x" and ny: "normalized y"
      and rx: "clock_range x" and ry: "clock_range y"
  shows "case timeval_subtract x y of (r, y', expired) \<Rightarrow>
           (expired \<noteq> 0 \<longleftrightarrow> tv_less x y) \<and>
           (expired = 0 \<longrightarrow>
              0 \<le> sint (tv_sec r) \<and> 0 \<le> sint (tv_usec r) \<and> sint (tv_usec r) < 1000000
              \<and> micros r = micros x - micros y)"
proof (cases "tv_usec x <s tv_usec y")
  case True
  have lt': "sint (tv_usec x) < sint (tv_usec y)"
    using True by (simp add: word_sless_alt)
  have s1: "sint (tv_sec y + 1) = sint (tv_sec y) + 1"
    using ry sint_add_long [of "tv_sec y" 1] by (simp add: clock_range_def)
  have s2: "sint (tv_sec x - (tv_sec y + 1)) = sint (tv_sec x) - sint (tv_sec y) - 1"
    using rx ry sint_sub_long [of "tv_sec x" "tv_sec y + 1"] by (simp add: s1 clock_range_def)
  note u = usec_borrow [OF nx ny]
  show ?thesis
    using nx ny lt'
    by (auto simp add: subtract_borrow [OF nx ny True] word_sless_alt s1 s2 u tv_less_def
          micros_def normalized_def)
next
  case False
  have ge': "sint (tv_usec y) \<le> sint (tv_usec x)"
    using False by (simp add: word_sless_alt)
  have s2: "sint (tv_sec x - tv_sec y) = sint (tv_sec x) - sint (tv_sec y)"
    using rx ry by (intro sint_sub_long) (simp_all add: clock_range_def)
  show ?thesis
    using nx ny ge'
    by (auto simp add: subtract_plain [OF nx ny False] word_sless_alt s2 usec_diff tv_less_def
          micros_def normalized_def)
qed

theorem timeval_subtract_correct_witness:
  "normalized \<lparr>tv_sec = 10, tv_usec = 5\<rparr> \<and> normalized \<lparr>tv_sec = 3, tv_usec = 7\<rparr>
   \<and> clock_range \<lparr>tv_sec = 10, tv_usec = 5\<rparr> \<and> clock_range \<lparr>tv_sec = 3, tv_usec = 7\<rparr>
   \<and> (case timeval_subtract \<lparr>tv_sec = 10, tv_usec = 5\<rparr> \<lparr>tv_sec = 3, tv_usec = 7\<rparr> of
        (r, y', expired) \<Rightarrow>
          (expired \<noteq> 0 \<longleftrightarrow> tv_less \<lparr>tv_sec = 10, tv_usec = 5\<rparr> \<lparr>tv_sec = 3, tv_usec = 7\<rparr>) \<and>
          (expired = 0 \<longrightarrow>
             0 \<le> sint (tv_sec r) \<and> 0 \<le> sint (tv_usec r) \<and> sint (tv_usec r) < 1000000
             \<and> micros r = micros \<lparr>tv_sec = 10, tv_usec = 5\<rparr> - micros \<lparr>tv_sec = 3, tv_usec = 7\<rparr>))"
proof -
  have n1: "normalized \<lparr>tv_sec = 10, tv_usec = 5\<rparr>" and n2: "normalized \<lparr>tv_sec = 3, tv_usec = 7\<rparr>"
    by (simp_all add: normalized_def)
  have r1: "clock_range \<lparr>tv_sec = 10, tv_usec = 5\<rparr>" and r2: "clock_range \<lparr>tv_sec = 3, tv_usec = 7\<rparr>"
    by (simp_all add: clock_range_def)
  show ?thesis
    using n1 n2 r1 r2 timeval_subtract_correct [OF n1 n2 r1 r2] by blast
qed

section \<open>The send dispatcher\<close>

text \<open>
  Claim C10. A PDU whose flag matches none of Ethernet II, Dot11, RadioTap and IEEE 802.3 is
  sent by its own hook on the default interface of the sender, whatever interface the caller
  gave: the right-hand side does not mention \<open>iface\<close>.
\<close>

theorem send_falls_back_to_default_interface:
  assumes "\<not> matches_flag pdu ETHERNET_II" and "\<not> matches_flag pdu DOT11"
      and "\<not> matches_flag pdu RADIOTAP" and "\<not> matches_flag pdu IEEE802_3"
  shows "send cfg pdu iface st = pdu_send pdu (default_iface (fst st)) st"
  using assms by (simp add: send_def send_default_def)

theorem send_falls_back_to_default_interface_witness:
  "\<not> matches_flag tracing_pdu ETHERNET_II \<and> \<not> matches_flag tracing_pdu DOT11
   \<and> \<not> matches_flag tracing_pdu RADIOTAP \<and> \<not> matches_flag tracing_pdu IEEE802_3
   \<and> send linux_cfg tracing_pdu 9 (PacketSender 7 2 0 0, world_of (\<lambda>n. quiet))
       = pdu_send tracing_pdu (default_iface (fst (PacketSender 7 2 0 0, world_of (\<lambda>n. quiet))))
           (PacketSender 7 2 0 0, world_of (\<lambda>n. quiet))
   \<and> log (snd (snd (send linux_cfg tracing_pdu 9 (PacketSender 7 2 0 0, world_of (\<lambda>n. quiet)))))
       = [Pcap_create 7]"
proof -
  have f: "\<not> matches_flag tracing_pdu ETHERNET_II" "\<not> matches_flag tracing_pdu DOT11"
    "\<not> matches_flag tracing_pdu RADIOTAP" "\<not> matches_flag tracing_pdu IEEE802_3"
    by (simp_all add: tracing_pdu_def)
  have e: "send linux_cfg tracing_pdu 9 (PacketSender 7 2 0 0, world_of (\<lambda>n. quiet))
       = pdu_send tracing_pdu (default_iface (fst (PacketSender 7 2 0 0, world_of (\<lambda>n. quiet))))
           (PacketSender 7 2 0 0, world_of (\<lambda>n. quiet))"
    by (rule send_falls_back_to_default_interface [OF f])
  have l: "log (snd (snd (pdu_send tracing_pdu
              (default_iface (fst (PacketSender 7 2 0 0, world_of (\<lambda>n. quiet))))
              (PacketSender 7 2 0 0, world_of (\<lambda>n. quiet))))) = [Pcap_create 7]"
    by (simp add: tracing_pdu_def PacketSender_def world_of_def note_call_def)
  show ?thesis
    using f e l by simp
qed

text \<open>
  Claim C9. When the send hook called by \<open>send_recv\<close> throws one of the errors of this
  file, \<open>send_recv\<close> returns the null pointer and no error, which is also what it returns
  when the wait for a reply times out; the receive hook is not called.
\<close>

theorem send_recv_swallows_transmit_failure:
  assumes "pdu_send pdu iface st = (Some e, st1)"
      and "e = Socket_open_error m \<or> e = Socket_write_error m \<or> e = Socket_close_error m
             \<or> e = Invalid_socket_type \<or> e = Runtime_error m"
  shows "send_recv pdu iface st = (Inr None, st1)"
  using assms by (auto simp add: send_recv_def)

theorem send_recv_swallows_transmit_failure_witness:
  "pdu_send failing_pdu 7 (PacketSender 7 2 0 0, world_of (\<lambda>n. quiet))
     = (Some (Socket_write_error ''Operation not permitted''),
        (PacketSender 7 2 0 0, world_of (\<lambda>n. quiet)))
   \<and> send_recv failing_pdu 7 (PacketSender 7 2 0 0, world_of (\<lambda>n. quiet))
     = (Inr None, (PacketSender 7 2 0 0, world_of (\<lambda>n. quiet)))"
proof -
  have h: "pdu_send failing_pdu 7 (PacketSender 7 2 0 0, world_of (\<lambda>n. quiet))
     = (Some (Socket_write_error ''Operation not permitted''),
        (PacketSender 7 2 0 0, world_of (\<lambda>n. quiet)))"
    by (simp add: failing_pdu_def)
  show ?thesis
    using h send_recv_swallows_transmit_failure [OF h, of "''Operation not permitted''"]
    by simp
qed

section \<open>The channel pool\<close>

lemma os_call_log: "os_call c w = (a, w1) \<Longrightarrow> log w1 = log w @ [c] \<and> env w1 = env w"
  by (auto simp add: os_call_def)

lemma socket_index_inj: "socket_index a = socket_index b \<longleftrightarrow> a = b"
  by (cases a; cases b) simp_all

lemma socket_index_less: "type \<noteq> SOCKETS_END \<Longrightarrow> socket_index type < 6"
  by (cases type) simp_all

lemma socket_index_end: "6 \<le> socket_index type \<longleftrightarrow> type = SOCKETS_END"
  by (cases type) simp_all

text \<open>
  A second \<open>open_l3_socket\<close> of a kind that is open does nothing, and so does a second
  \<open>open_l2_socket\<close> of the Linux variant.
\<close>

lemma open_l3_socket_again:
  assumes "pool_ok s" and "platform cfg \<noteq> Windows" and "type \<noteq> SOCKETS_END"
      and "open_l3_socket cfg type (s, w) = (None, (s1, w1))"
  shows "open_l3_socket cfg type (s1, w1) = (None, (s1, w1))"
  using assms
  by (auto simp add: open_l3_socket_def find_type_def os_call_def Let_def pool_ok_def
        INVALID_RAW_SOCKET_def socket_index_less
      split: option.splits if_splits)

lemma open_l2_socket_linux_again:
  assumes "platform cfg = Linux" and "\<not> have_pcap_sendpacket cfg"
      and "open_l2_socket cfg iface (s, w) = Some (None, (s1, w1))"
  shows "open_l2_socket cfg iface (s1, w1) = Some (None, (s1, w1))"
  using assms
  by (auto simp add: open_l2_socket_def os_call_def Let_def INVALID_RAW_SOCKET_def
      split: if_splits)

text \<open>
  Claim C6. Opening twice is claimed to keep one handle and to create the resource once.
  The BSD variant of \<open>open_l2_socket\<close> has no test for a channel that is already open: in
  \<open>bpf_world\<close> the first call opens descriptor \<open>3\<close> for interface \<open>1\<close>, the second call opens
  descriptor \<open>4\<close> and stores it under the same interface, and descriptor \<open>3\<close> is neither
  closed (the log has no \<open>Sys_close\<close>) nor held by the sender any more.
\<close>

theorem open_l2_socket_bsd_twice_leaks:
  "case open_l2_socket bsd_cfg 1 (fresh_sender, bpf_world) of
     Some (None, (s1, w1)) \<Rightarrow>
       ether_socket_bsd s1 1 = Some 3 \<and>
       (case open_l2_socket bsd_cfg 1 (s1, w1) of
          Some (None, (s2, w2)) \<Rightarrow>
            ether_socket_bsd s2 = [1 \<mapsto> 4] \<and>
            sockets s2 = [- 1, - 1, - 1, - 1, - 1, - 1] \<and>
            log w2 = [Sys_open_bpf 0, Sys_ioctl 3 BIOCSETIF, Sys_ioctl 3 BIOCIMMEDIATE,
                      Sys_ioctl 3 BIOCGBLEN,
                      Sys_open_bpf 0, Sys_open_bpf 1, Sys_ioctl 4 BIOCSETIF,
                      Sys_ioctl 4 BIOCIMMEDIATE, Sys_ioctl 4 BIOCGBLEN]
        | _ \<Rightarrow> False)
   | _ \<Rightarrow> False"
  by (simp add: open_l2_socket_def bsd_cfg_def fresh_sender_def bpf_world_def world_of_def
        probe_bpf.simps os_call_def quiet_def PacketSender_def INVALID_RAW_SOCKET_def
        numeral_eq_Suc)

text \<open>
  Claim C7, as stated, fails on Windows: closing the link-layer kind there does nothing and
  throws nothing, although no such channel is open.
\<close>

theorem close_socket_windows_counterexample:
  "channel_of windows_cfg fresh_sender ETHER_SOCKET 0 = None
   \<and> close_socket windows_cfg ETHER_SOCKET 0 (fresh_sender, quiet_world)
       = (None, (fresh_sender, quiet_world))"
  by (simp add: close_socket_def windows_cfg_def channel_of_def fresh_sender_def
        PacketSender_def INVALID_RAW_SOCKET_def)

text \<open>
  Claim C7, amended. Builds with the capture library are left out for the link-layer kind:
  \<open>close_socket\<close> never looks at the capture handles. For an IP-layer kind in any build, and
  for the link-layer kind in a build without the capture library that is not for Windows:
  when the sender holds no channel of the kind (for the interface), \<open>close_socket\<close> throws
  \<^verbatim>\<open>invalid_socket_type\<close> and changes neither the sender nor the world; when it holds one, it
  closes that descriptor with one call; if that call fails (it cannot on Windows, where its
  result is not read) it throws \<^verbatim>\<open>socket_close_error\<close> and the sender is unchanged;
  otherwise that channel, and no other, is gone from the pool. For the link-layer kind in a
  build for Windows without the capture library, whatever the sender and the world: there
  is no channel, and \<open>close_socket\<close> throws nothing and changes nothing.
\<close>

theorem close_socket_removes_one_channel:
  assumes ok: "pool_ok s"
  shows "(type \<noteq> ETHER_SOCKET \<or> (platform cfg \<noteq> Windows \<and> \<not> have_pcap_sendpacket cfg) \<longrightarrow>
          (case channel_of cfg s type iface of
             None \<Rightarrow> close_socket cfg type iface (s, w) = (Some Invalid_socket_type, (s, w))
           | Some fd \<Rightarrow>
               (case close_socket cfg type iface (s, w) of
                  (r, (s', w')) \<Rightarrow>
                    log w' = log w @ [if platform cfg = Windows then Sys_closesocket fd
                                      else Sys_close fd]
                    \<and> (if platform cfg \<noteq> Windows \<and> ret (env w (length (log w))) = - 1
                        then r = Some (Socket_close_error (errstr (env w (length (log w)))))
                             \<and> s' = s
                        else r = None \<and> channel_of cfg s' type iface = None
                             \<and> (\<forall>type' iface'. \<not> same_channel cfg type iface type' iface'
                                   \<longrightarrow> channel_of cfg s' type' iface'
                                         = channel_of cfg s type' iface')))))
       \<and> (type = ETHER_SOCKET \<and> platform cfg = Windows \<and> \<not> have_pcap_sendpacket cfg \<longrightarrow>
            channel_of cfg s type iface = None
            \<and> close_socket cfg type iface (s, w) = (None, (s, w)))"
proof (cases "type = ETHER_SOCKET")
  case True
  then show ?thesis
    by (auto simp add: same_channel_def channel_of_def close_socket_def os_call_def Let_def
        split: option.splits)
next
  case False
  then show ?thesis
    using ok
    by (auto simp add: same_channel_def channel_of_def close_socket_def os_call_def Let_def
          pool_ok_def socket_index_inj socket_index_end socket_index_less
        split: option.splits)
qed

theorem close_socket_removes_one_channel_witness:
  "pool_ok raw_open_sender
   \<and> channel_of linux_cfg raw_open_sender IP_RAW_SOCKET 0 = Some 5
   \<and> (case close_socket linux_cfg IP_RAW_SOCKET 0 (raw_open_sender, quiet_world) of
        (r, (s', w')) \<Rightarrow>
          log w' = [Sys_close 5] \<and> r = None
          \<and> channel_of linux_cfg s' IP_RAW_SOCKET 0 = None
          \<and> channel_of linux_cfg s' ETHER_SOCKET 0 = None)
   \<and> pool_ok ether_open_sender
   \<and> platform linux_cfg \<noteq> Windows \<and> \<not> have_pcap_sendpacket linux_cfg
   \<and> channel_of linux_cfg ether_open_sender ETHER_SOCKET 0 = Some 4
   \<and> (case close_socket linux_cfg ETHER_SOCKET 0 (ether_open_sender, quiet_world) of
        (r, (s', w')) \<Rightarrow>
          log w' = [Sys_close 4] \<and> r = None
          \<and> channel_of linux_cfg s' ETHER_SOCKET 0 = None)
   \<and> platform windows_cfg = Windows \<and> \<not> have_pcap_sendpacket windows_cfg
   \<and> channel_of windows_cfg raw_open_sender ETHER_SOCKET 3 = None
   \<and> close_socket windows_cfg ETHER_SOCKET 3 (raw_open_sender, quiet_world)
       = (None, (raw_open_sender, quiet_world))"
proof -
  have ok: "pool_ok raw_open_sender" "pool_ok ether_open_sender"
    by (simp_all add: pool_ok_def raw_open_sender_def ether_open_sender_def fresh_sender_def
          PacketSender_def)
  have ch: "channel_of linux_cfg raw_open_sender IP_RAW_SOCKET 0 = Some 5"
    "channel_of linux_cfg ether_open_sender ETHER_SOCKET 0 = Some 4"
    "channel_of linux_cfg raw_open_sender ETHER_SOCKET 0 = None"
    by (simp_all add: channel_of_def raw_open_sender_def ether_open_sender_def fresh_sender_def
          PacketSender_def INVALID_RAW_SOCKET_def linux_cfg_def)
  have q: "log quiet_world = []" "ret (env quiet_world 0) = 0" "platform linux_cfg = Linux"
    "\<not> have_pcap_sendpacket linux_cfg" "platform windows_cfg = Windows"
    "\<not> have_pcap_sendpacket windows_cfg"
    by (simp_all add: quiet_world_def world_of_def quiet_def linux_cfg_def windows_cfg_def)
  have e: "\<not> same_channel linux_cfg IP_RAW_SOCKET 0 ETHER_SOCKET 0"
    by (simp add: same_channel_def)
  show ?thesis
    using ok ch e
      close_socket_removes_one_channel [OF ok(1), of IP_RAW_SOCKET linux_cfg 0 quiet_world]
      close_socket_removes_one_channel [OF ok(2), of ETHER_SOCKET linux_cfg 0 quiet_world]
      close_socket_removes_one_channel [OF ok(1), of ETHER_SOCKET windows_cfg 3 quiet_world]
    by (auto simp add: q split: prod.splits)
qed

section \<open>Link-layer send\<close>

text \<open>Opening a link-layer channel without the capture library writes nothing.\<close>

lemma probe_bpf_log:
  assumes "probe_bpf i w = Some r"
  shows "filter is_write (log (snd r)) = filter is_write (log w)"
proof (rule probe_bpf.raw_induct
    [where P = "\<lambda>i w r. filter is_write (log (snd r)) = filter is_write (log w)", OF _ assms])
  fix probe i w r
  assume ih: "\<And>j v y. probe j v = Some y
                \<Longrightarrow> filter is_write (log (snd y)) = filter is_write (log v)"
    and body: "(case os_call (Sys_open_bpf i) w of
                  (a, w1) \<Rightarrow> if ret a = - 1 then probe (i + 1) w1 else Some (a, w1)) = Some r"
  obtain b w2 where c: "os_call (Sys_open_bpf i) w = (b, w2)"
    by (cases "os_call (Sys_open_bpf i) w")
  have l: "filter is_write (log w2) = filter is_write (log w)"
    using os_call_log [OF c] by simp
  show "filter is_write (log (snd r)) = filter is_write (log w)"
  proof (cases "ret b = - 1")
    case True
    then have "probe (i + 1) w2 = Some r"
      using body c by simp
    then show ?thesis
      using ih l by simp
  next
    case False
    then show ?thesis
      using body c l by auto
  qed
qed

lemma probe_bpf_no_write:
  "probe_bpf i w = Some (a, w1) \<Longrightarrow> filter is_write (log w1) = filter is_write (log w)"
  using probe_bpf_log [of i w "(a, w1)"] by simp

lemma open_l2_socket_no_write:
  assumes "\<not> have_pcap_sendpacket cfg"
      and "open_l2_socket cfg iface (s, w) = Some (r, (s1, w1))"
  shows "filter is_write (log w1) = filter is_write (log w)
         \<and> (r = None \<or> (\<exists>m. r = Some (Socket_open_error m)))"
proof (cases "platform cfg = BSD")
  case True
  then show ?thesis
    using assms
    by (auto simp add: open_l2_socket_def os_call_def Let_def
        split: option.splits if_splits prod.splits dest!: probe_bpf_no_write)
next
  case False
  then show ?thesis
    using assms
    by (auto simp add: open_l2_socket_def os_call_def Let_def split: if_splits)
qed

lemma get_ether_socket_no_write:
  assumes "\<not> have_pcap_sendpacket cfg"
      and "get_ether_socket cfg iface (s, w) = Some (r, (s1, w1))"
  shows "filter is_write (log w1) = filter is_write (log w)
         \<and> (case r of Inl e \<Rightarrow> \<exists>m. e = Socket_open_error m | Inr sock \<Rightarrow> True)"
proof (cases "ether_socket_initialized cfg s iface")
  case True
  then show ?thesis
    using assms(2) by (auto simp add: get_ether_socket_def split: option.splits if_splits)
next
  case False
  then obtain r' s' w' where o: "open_l2_socket cfg iface (s, w) = Some (r', (s', w'))"
    using assms(2) by (auto simp add: get_ether_socket_def split: option.splits)
  from open_l2_socket_no_write [OF assms(1) o] False assms(2) o
  show ?thesis
    by (auto simp add: get_ether_socket_def split: option.splits if_splits)
qed

lemma get_ether_socket_initialized:
  assumes "ether_socket_initialized cfg s iface"
  shows "\<exists>sock. get_ether_socket cfg iface (s, w) = Some (Inr sock, (s, w))"
  using assms
  by (auto simp add: get_ether_socket_def ether_socket_initialized_def split: option.splits)

lemma get_ether_socket_linux_returns:
  assumes "platform cfg = Linux" and "\<not> have_pcap_sendpacket cfg"
  shows "get_ether_socket cfg iface (s, w) \<noteq> None"
  using assms
  by (auto simp add: get_ether_socket_def open_l2_socket_def os_call_def Let_def
      split: option.splits if_splits)

text \<open>
  Claim C8, as stated, fails where the channel is not yet open and cannot be opened: the
  send of an empty serialisation by a process that may not create the raw socket throws
  \<^verbatim>\<open>socket_open_error\<close>.
\<close>

theorem send_l2_empty_counterexample:
  "matches_flag empty_pdu ETHERNET_II \<and> serialize empty_pdu = []
   \<and> send_l2 linux_cfg empty_pdu [] 0 (fresh_sender, denied_world)
       = Some (Some (Socket_open_error ''Operation not permitted''),
               (fresh_sender, denied_world\<lparr>log := [Sys_socket PF_PACKET htons_ETH_P_ALL]\<rparr>))"
  by (simp add: send_l2_def get_ether_socket_def open_l2_socket_def ether_socket_initialized_def
        empty_pdu_def linux_cfg_def fresh_sender_def PacketSender_def denied_world_def
        world_of_def os_call_def quiet_def INVALID_RAW_SOCKET_def)

text \<open>
  Claim C8, amended, for the variants without the capture library. With an empty
  serialisation \<open>send_l2\<close> makes no write; it throws nothing but the \<^verbatim>\<open>socket_open_error\<close> of
  a channel that had to be opened and could not be; where the channel is open it makes no
  call at all and returns, and on Linux it returns in every case. With a serialisation
  that is not empty, a channel at hand and a write that returns \<open>-1\<close>, it throws
  \<^verbatim>\<open>socket_write_error\<close> after that one write.
\<close>

theorem send_l2_empty_or_failed_write:
  assumes np: "\<not> have_pcap_sendpacket cfg" and comp: "platform cfg \<noteq> Windows"
  shows "(serialize pdu = [] \<longrightarrow>
            (ether_socket_initialized cfg s iface
               \<longrightarrow> send_l2 cfg pdu link_addr iface (s, w) = Some (None, (s, w)))
            \<and> (platform cfg = Linux \<longrightarrow> send_l2 cfg pdu link_addr iface (s, w) \<noteq> None)
            \<and> (\<forall>r s' w'. send_l2 cfg pdu link_addr iface (s, w) = Some (r, (s', w'))
                  \<longrightarrow> filter is_write (log w') = filter is_write (log w)
                      \<and> (r = None \<or> (\<exists>m. r = Some (Socket_open_error m)))))
       \<and> (serialize pdu \<noteq> [] \<longrightarrow>
            (\<forall>sock s1 w1.
                get_ether_socket cfg iface (s, w) = Some (Inr sock, (s1, w1))
                \<and> ret (env w1 (length (log w1))) = - 1
                \<longrightarrow> send_l2 cfg pdu link_addr iface (s, w)
                      = Some (Some (Socket_write_error (errstr (env w1 (length (log w1))))),
                              (s1, w1\<lparr>log := log w1 @
                                 [if platform cfg = BSD then Sys_write sock (serialize pdu)
                                  else Sys_sendto sock (serialize pdu) link_addr]\<rparr>))))"
proof (intro conjI impI allI)
  assume e: "serialize pdu = []" and i: "ether_socket_initialized cfg s iface"
  from get_ether_socket_initialized [OF i, of w]
  show "send_l2 cfg pdu link_addr iface (s, w) = Some (None, (s, w))"
    using np e by (auto simp add: send_l2_def)
next
  assume e: "serialize pdu = []" and l: "platform cfg = Linux"
  from get_ether_socket_linux_returns [OF l np, of iface s w]
  show "send_l2 cfg pdu link_addr iface (s, w) \<noteq> None"
    using np e by (auto simp add: send_l2_def split: option.splits sum.splits)
next
  fix r s' w'
  assume e: "serialize pdu = []"
    and r: "send_l2 cfg pdu link_addr iface (s, w) = Some (r, (s', w'))"
  then obtain g where g: "get_ether_socket cfg iface (s, w) = Some (g, (s', w'))"
    and rg: "r = (case g of Inl e \<Rightarrow> Some e | Inr sock \<Rightarrow> None)"
    using np by (auto simp add: send_l2_def split: option.splits sum.splits)
  from get_ether_socket_no_write [OF np g] rg
  show "filter is_write (log w') = filter is_write (log w)"
    and "r = None \<or> (\<exists>m. r = Some (Socket_open_error m))"
    by (auto split: sum.splits)
next
  fix sock s1 w1
  assume "serialize pdu \<noteq> []"
    and "get_ether_socket cfg iface (s, w) = Some (Inr sock, (s1, w1))
         \<and> ret (env w1 (length (log w1))) = - 1"
  then show "send_l2 cfg pdu link_addr iface (s, w)
      = Some (Some (Socket_write_error (errstr (env w1 (length (log w1))))),
              (s1, w1\<lparr>log := log w1 @
                 [if platform cfg = BSD then Sys_write sock (serialize pdu)
                  else Sys_sendto sock (serialize pdu) link_addr]\<rparr>))"
    using np by (simp add: send_l2_def os_call_def)
qed

theorem send_l2_empty_or_failed_write_witness:
  "\<not> have_pcap_sendpacket linux_cfg \<and> platform linux_cfg \<noteq> Windows
   \<and> serialize empty_pdu = [] \<and> ether_socket_initialized linux_cfg ether_open_sender 0
   \<and> send_l2 linux_cfg empty_pdu [] 0 (ether_open_sender, quiet_world)
       = Some (None, (ether_open_sender, quiet_world))
   \<and> serialize ether_pdu \<noteq> []
   \<and> send_l2 linux_cfg ether_pdu [] 0 (ether_open_sender, denied_world)
       = Some (Some (Socket_write_error ''Operation not permitted''),
               (ether_open_sender, denied_world\<lparr>log := [Sys_sendto 4 [1, 2] []]\<rparr>))"
proof -
  have np: "\<not> have_pcap_sendpacket linux_cfg" and comp: "platform linux_cfg \<noteq> Windows"
    by (simp_all add: linux_cfg_def)
  have e: "serialize empty_pdu = []" and ne: "serialize ether_pdu = [1, 2]"
    by (simp_all add: empty_pdu_def ether_pdu_def)
  have i: "ether_socket_initialized linux_cfg ether_open_sender 0"
    by (simp add: ether_socket_initialized_def linux_cfg_def ether_open_sender_def
          INVALID_RAW_SOCKET_def)
  have g: "get_ether_socket linux_cfg 0 (ether_open_sender, denied_world)
             = Some (Inr 4, (ether_open_sender, denied_world))"
    using i by (simp add: get_ether_socket_def linux_cfg_def ether_open_sender_def)
  have d: "ret (env denied_world 0) = - 1"
    "errstr (env denied_world 0) = ''Operation not permitted''"
    "log denied_world = []" "platform linux_cfg \<noteq> BSD"
    by (simp_all add: denied_world_def world_of_def quiet_def linux_cfg_def)
  show ?thesis
    using np comp e i g
      send_l2_empty_or_failed_write [OF np comp, of empty_pdu ether_open_sender 0 "[]" quiet_world]
      send_l2_empty_or_failed_write [OF np comp, of ether_pdu ether_open_sender 0 "[]" denied_world]
    by (simp add: ne d)
qed

section \<open>The receive-match loop: batched records\<close>

lemma wordalign_ge:
  assumes "0 < BPF_ALIGNMENT abi"
  shows "unat x \<le> BPF_WORDALIGN abi x"
proof -
  let ?al = "BPF_ALIGNMENT abi"
  let ?n = "unat x + (?al - 1)"
  have "?n = (?n div ?al) * ?al + ?n mod ?al"
    by simp
  moreover have "?n mod ?al \<le> ?al - 1"
    using assms mod_less_divisor [of ?al ?n] by linarith
  ultimately have "unat x \<le> (?n div ?al) * ?al"
    by linarith
  then show ?thesis
    by (simp add: BPF_WORDALIGN_def)
qed

lemma encode_record_length:
  assumes "wf_record abi r"
  shows "length (encode_record abi r) = BPF_WORDALIGN abi (of_nat (record_len r))"
    and "0 < length (encode_record abi r)"
proof -
  have u: "unat (of_nat (record_len r) :: u32) = record_len r"
    using assms by (simp add: wf_record_def unat_of_nat)
  have "record_len r \<le> BPF_WORDALIGN abi (of_nat (record_len r))"
    using wordalign_ge [of abi "of_nat (record_len r)"] assms u by (simp add: wf_record_def)
  then show "length (encode_record abi r) = BPF_WORDALIGN abi (of_nat (record_len r))"
    by (simp add: encode_record_def record_len_def)
  show "0 < length (encode_record abi r)"
    using assms by (simp add: encode_record_def wf_record_def)
qed

lemma hdr_sum:
  assumes "wf_record abi r"
  shows "(ucast (of_nat (length (rec_hdr r)) :: u16) :: u32) + of_nat (length (rec_payload r))
           = of_nat (record_len r)"
    and "unat (of_nat (length (rec_hdr r)) :: u16) = length (rec_hdr r)"
proof -
  show h: "unat (of_nat (length (rec_hdr r)) :: u16) = length (rec_hdr r)"
    using assms by (simp add: wf_record_def unat_of_nat)
  have "(ucast (of_nat (length (rec_hdr r)) :: u16) :: u32) = of_nat (length (rec_hdr r))"
    using h by (metis of_nat_unat)
  then show "(ucast (of_nat (length (rec_hdr r)) :: u16) :: u32) + of_nat (length (rec_payload r))
           = of_nat (record_len r)"
    by (simp add: record_len_def)
qed


lemma bpf_walk_stop:
  "\<not> int ptr < sz \<Longrightarrow> bpf_walk abi pdu ff buffer sz ptr w = (No_match, w)"
  by (subst bpf_walk.simps) simp

lemma bpf_walk_match:
  assumes "int ptr < sz"
      and "decode_hdr abi (drop ptr buffer) = h"
      and "matches_response pdu (drop (ptr + unat (bh_hdrlen h)) buffer) (bh_caplen h)"
  shows "bpf_walk abi pdu ff buffer sz ptr w =
           (Matched (ff (pdu_type pdu) (drop (ptr + unat (bh_hdrlen h)) buffer) (bh_caplen h)),
            note_call (Call_matches_response (ptr + unat (bh_hdrlen h)) (bh_caplen h)) w)"
  using assms by (subst bpf_walk.simps) (simp add: Let_def)

lemma bpf_walk_next:
  assumes "int ptr < sz"
      and "decode_hdr abi (drop ptr buffer) = h"
      and "\<not> matches_response pdu (drop (ptr + unat (bh_hdrlen h)) buffer) (bh_caplen h)"
      and "BPF_WORDALIGN abi (ucast (bh_hdrlen h) + bh_caplen h) = step" and "0 < step"
  shows "bpf_walk abi pdu ff buffer sz ptr w =
           bpf_walk abi pdu ff buffer sz (ptr + step)
             (note_call (Call_matches_response (ptr + unat (bh_hdrlen h)) (bh_caplen h)) w)"
  using assms by (subst bpf_walk.simps) (simp add: Let_def)

lemma bpf_walk_records:
  assumes "records_at abi buffer off recs"
      and "sz = int (off + records_len abi recs)"
  shows "bpf_walk abi pdu ff buffer sz off w =
           ((case find (accepts pdu buffer) (spans_at abi off recs) of
               None \<Rightarrow> No_match
             | Some span \<Rightarrow> Matched (ff (pdu_type pdu) (drop (fst span) buffer) (snd span))),
            w\<lparr>log := log w @ map test_event (tested (accepts pdu buffer) (spans_at abi off recs))\<rparr>)"
  using assms
proof (induction recs arbitrary: off w)
  case Nil
  then show ?case
    by (simp add: bpf_walk_stop records_len_def)
next
  case (Cons r rs)
  let ?len = "length (encode_record abi r)"
  let ?h = "\<lparr>bh_caplen = of_nat (length (rec_payload r)) :: u32,
             bh_hdrlen = of_nat (length (rec_hdr r)) :: u16\<rparr>"
  have wf: "wf_record abi r"
    and dec: "decode_hdr abi (drop off buffer) = ?h"
    and rest: "records_at abi buffer (off + ?len) rs"
    using Cons.prems(1) by simp_all
  have len: "BPF_WORDALIGN abi (of_nat (record_len r)) = ?len" and pos: "0 < ?len"
    using encode_record_length [OF wf] by simp_all
  have hl: "unat (bh_hdrlen ?h) = length (rec_hdr r)"
    and st: "BPF_WORDALIGN abi (ucast (bh_hdrlen ?h) + bh_caplen ?h) = ?len"
    using hdr_sum [OF wf] len by simp_all
  have sz: "sz = int ((off + ?len) + records_len abi rs)"
    using Cons.prems(2) by (simp add: records_len_def)
  have lt: "int off < sz"
    using sz pos by linarith
  note ih = Cons.IH [OF rest sz]
  show ?case
  proof (cases "accepts pdu buffer (off + length (rec_hdr r), of_nat (length (rec_payload r)))")
    case True
    then have m: "matches_response pdu (drop (off + unat (bh_hdrlen ?h)) buffer) (bh_caplen ?h)"
      by (simp add: accepts_def hdr_sum(2) [OF wf])
    show ?thesis
      using True
      by (simp add: bpf_walk_match [OF lt dec m] hdr_sum(2) [OF wf] note_call_def test_event_def)
  next
    case False
    then have m: "\<not> matches_response pdu (drop (off + unat (bh_hdrlen ?h)) buffer) (bh_caplen ?h)"
      by (simp add: accepts_def hdr_sum(2) [OF wf])
    show ?thesis
      using False
      by (simp add: bpf_walk_next [OF lt dec m st pos] ih hdr_sum(2) [OF wf] note_call_def test_event_def)
  qed
qed


lemma tested_find_None: "find P xs = None \<Longrightarrow> tested P xs = xs"
  by (induction xs) (auto split: if_splits)

lemma tested_find_Some:
  assumes "find P xs = Some x"
  shows "tested P xs = take (Suc (length (takeWhile (\<lambda>y. \<not> P y) xs))) xs
         \<and> length (takeWhile (\<lambda>y. \<not> P y) xs) < length xs
         \<and> xs ! length (takeWhile (\<lambda>y. \<not> P y) xs) = x
         \<and> P x"
  using assms by (induction xs) (auto split: if_splits)

lemma length_spans_at: "length (spans_at abi off recs) = length recs"
  by (induction recs arbitrary: off) simp_all

lemma read_candidates_bsd:
  assumes bsd: "platform cfg = BSD"
      and rd: "os_call (Sys_read fd (buffer_size s)) w1 = (b, w2)"
      and buf: "buffer1 = store_bytes (nat (buffer_size s)) buffer (ret b) (data b)"
      and recs: "records_at abi buffer1 0 recs" and sz: "ret b = int (records_len abi recs)"
  shows "read_candidates cfg abi s pdu ff fd buffer w1 =
           ((case find (accepts pdu buffer1) (spans_at abi 0 recs) of
               None \<Rightarrow> No_match
             | Some span \<Rightarrow> Matched (ff (pdu_type pdu) (drop (fst span) buffer1) (snd span))),
            buffer1,
            w2\<lparr>log := log w2 @ map test_event
                     (tested (accepts pdu buffer1) (spans_at abi 0 recs))\<rparr>)"
proof -
  have "ret b = int (0 + records_len abi recs)"
    using sz by simp
  from bpf_walk_records [OF recs this, of pdu ff w2] show ?thesis
    using bsd rd unfolding buf by (simp add: read_candidates_def Let_def)
qed

text \<open>The example buffer holds the two example records.\<close>

lemma encode_record_one: "encode_record classic_abi record_one = rec_hdr record_one @ rec_payload record_one"
  by code_simp

lemma encode_record_two: "encode_record classic_abi record_two = rec_hdr record_two @ rec_payload record_two @ [0, 0, 0]"
  by code_simp

lemma wf_record_one: "wf_record classic_abi record_one" and wf_record_two: "wf_record classic_abi record_two"
  by (simp_all add: wf_record_def classic_abi_def record_one_def record_two_def record_len_def)

lemma decode_record_one: "decode_hdr classic_abi (drop 0 (two_records @ [0, 0, 0, 0]))
          = \<lparr>bh_caplen = of_nat (length (rec_payload record_one)), bh_hdrlen = of_nat (length (rec_hdr record_one))\<rparr>"
  by (simp add: classic_abi_def two_records_def record_one_def)

lemma decode_record_two: "decode_hdr classic_abi (drop 20 (two_records @ [0, 0, 0, 0]))
          = \<lparr>bh_caplen = of_nat (length (rec_payload record_two)), bh_hdrlen = of_nat (length (rec_hdr record_two))\<rparr>"
  by (simp add: classic_abi_def two_records_def record_two_def)

lemma bytes_record_one: "take 20 (drop 0 (two_records @ [0, 0, 0, 0])) = rec_hdr record_one @ rec_payload record_one"
  by (simp add: two_records_def record_one_def)

lemma bytes_record_two: "take 24 (drop 20 (two_records @ [0, 0, 0, 0])) = rec_hdr record_two @ rec_payload record_two @ [0, 0, 0]"
  by (simp add: two_records_def record_two_def)

lemma length_record_one: "length (rec_hdr record_one @ rec_payload record_one) = 20"
  and length_record_two: "length (rec_hdr record_two @ rec_payload record_two @ [0, 0, 0]) = 24"
  by (simp_all add: record_one_def record_two_def)

lemma two_records_at: "records_at classic_abi (two_records @ [0, 0, 0, 0]) 0 [record_one, record_two]"
proof -
  have e1: "length (encode_record classic_abi record_one) = 20"
    and e2: "length (encode_record classic_abi record_two) = 24"
    by (simp_all only: encode_record_one encode_record_two length_record_one length_record_two)
  have a: "(0::nat) + 20 = 20"
    by simp
  show ?thesis
    using wf_record_one wf_record_two decode_record_one decode_record_two bytes_record_one bytes_record_two
    by (simp only: records_at.simps encode_record_one encode_record_two length_record_one length_record_two a simp_thms)
qed

lemma two_records_len: "records_len classic_abi [record_one, record_two] = 44"
  by (simp add: records_len_def encode_record_one encode_record_two length_record_one length_record_two del: append.simps length_append)

lemma two_records_spans: "spans_at classic_abi 0 [record_one, record_two] = [(18, 2), (38, 3)]"
  by (simp add: encode_record_one encode_record_two length_record_one length_record_two del: append.simps length_append) (simp add: record_one_def record_two_def)

lemma two_records_stored:
  "store_bytes (nat (buffer_size bpf_sender)) (replicate 48 0) 44 two_records
     = two_records @ [0, 0, 0, 0]"
  by code_simp

text \<open>
  Claim C2. On the BSD path, let \<^verbatim>\<open>select\<close> report the first descriptor ready and let its
  read fill the buffer with \<open>K\<close> aligned records. Then there are \<open>K\<close> payload spans; the log
  gains the \<^verbatim>\<open>select\<close>, one read, and the tests of the spans in order up to and including
  the first one the predicate accepts. If no span is accepted, all \<open>K\<close> are tested and the
  descriptor gives no reply. If the span of index \<open>j\<close> (counted from \<open>0\<close>) is the first that is
  accepted, exactly the first \<open>j + 1\<close> spans are tested and the loop returns the reply built
  from that span, in the world as it is after that test: no read follows.
\<close>

theorem bsd_batched_demultiplexing:
  assumes bsd: "platform cfg = BSD"
      and sel: "os_call (Sys_select (max_fd_of (fd # fds) + 1) (fd # fds) timeout) w = (a, w1)"
      and rdy: "0 < ret a" "fd \<in> set (ready a)"
      and rd: "os_call (Sys_read fd (buffer_size s)) w1 = (b, w2)"
      and buf: "buffer1 = store_bytes (nat (buffer_size s)) buffer (ret b) (data b)"
      and recs: "records_at abi buffer1 0 recs" and sz: "ret b = int (records_len abi recs)"
      and w3: "w3 = w2\<lparr>log := log w2 @ map test_event
                         (tested (accepts pdu buffer1) (spans_at abi 0 recs))\<rparr>"
      and j: "j = length (takeWhile (\<lambda>span. \<not> accepts pdu buffer1 span) (spans_at abi 0 recs))"
  shows "length (spans_at abi 0 recs) = length recs
       \<and> log w3 = log w @ [Sys_select (max_fd_of (fd # fds) + 1) (fd # fds) timeout,
                            Sys_read fd (buffer_size s)]
                     @ map test_event (tested (accepts pdu buffer1) (spans_at abi 0 recs))
       \<and> (case find (accepts pdu buffer1) (spans_at abi 0 recs) of
             None \<Rightarrow>
               tested (accepts pdu buffer1) (spans_at abi 0 recs) = spans_at abi 0 recs
               \<and> read_candidates cfg abi s pdu ff fd buffer w1 = (No_match, buffer1, w3)
           | Some span \<Rightarrow>
               j < length recs \<and> spans_at abi 0 recs ! j = span
               \<and> tested (accepts pdu buffer1) (spans_at abi 0 recs)
                   = take (Suc j) (spans_at abi 0 recs)
               \<and> recv_loop (Suc n) cfg abi s pdu ff (fd # fds) end_time timeout buffer w
                   = (Some (Some (ff (pdu_type pdu) (drop (fst span) buffer1) (snd span))), w3))"
proof -
  note rc = read_candidates_bsd [OF bsd rd buf recs sz, of pdu ff, folded w3]
  have lg: "log w3 = log w @ [Sys_select (max_fd_of (fd # fds) + 1) (fd # fds) timeout,
                            Sys_read fd (buffer_size s)]
                     @ map test_event (tested (accepts pdu buffer1) (spans_at abi 0 recs))"
    using os_call_log [OF sel] os_call_log [OF rd] w3 by simp
  show ?thesis
  proof (cases "find (accepts pdu buffer1) (spans_at abi 0 recs)")
    case None
    then show ?thesis
      using rc lg by (simp add: length_spans_at tested_find_None)
  next
    case (Some span)
    have nm: "ret a \<noteq> - 1"
      using rdy(1) by simp
    have loop: "recv_loop (Suc n) cfg abi s pdu ff (fd # fds) end_time timeout buffer w
                 = (Some (Some (ff (pdu_type pdu) (drop (fst span) buffer1) (snd span))), w3)"
      using sel rdy nm rc Some by simp
    show ?thesis
      using Some tested_find_Some [OF Some] lg loop j
      by (simp add: length_spans_at)
  qed
qed

theorem bsd_batched_demultiplexing_witness:
  "platform bsd_cfg = BSD
   \<and> records_at classic_abi (two_records @ [0, 0, 0, 0]) 0 [record_one, record_two]
   \<and> spans_at classic_abi 0 [record_one, record_two] = [(18, 2), (38, 3)]
   \<and> recv_loop (Suc 0) bsd_cfg classic_abi bpf_sender picky_pdu payload_of [3]
         \<lparr>tv_sec = 102, tv_usec = 0\<rparr> \<lparr>tv_sec = 2, tv_usec = 0\<rparr> (replicate 48 0) batch_world
       = (Some (Some [204, 221, 238]),
          batch_world\<lparr>log := [Sys_select 4 [3] \<lparr>tv_sec = 2, tv_usec = 0\<rparr>, Sys_read 3 48,
                              Call_matches_response 18 2, Call_matches_response 38 3]\<rparr>)"
proof -
  let ?buf = "two_records @ [0, 0, 0, 0]"
  let ?recs = "[record_one, record_two]"
  let ?tmo = "\<lparr>tv_sec = 2, tv_usec = 0\<rparr> :: timeval"
  let ?w1 = "batch_world\<lparr>log := [Sys_select 4 [3] ?tmo]\<rparr>"
  let ?w2 = "batch_world\<lparr>log := [Sys_select 4 [3] ?tmo, Sys_read 3 48]\<rparr>"
  let ?a = "quiet\<lparr>ret := 1, ready := [3]\<rparr>"
  let ?b = "quiet\<lparr>ret := 44, data := two_records\<rparr>"
  have bsd: "platform bsd_cfg = BSD"
    by (simp add: bsd_cfg_def)
  have sel: "os_call (Sys_select (max_fd_of (3 # []) + 1) (3 # []) ?tmo) batch_world = (?a, ?w1)"
    by (simp add: os_call_def max_fd_of_def batch_world_def world_of_def)
  have rdy: "0 < ret ?a" "3 \<in> set (ready ?a)"
    by simp_all
  have bs: "buffer_size bpf_sender = 48"
    by (simp add: bpf_sender_def)
  have rd: "os_call (Sys_read 3 (buffer_size bpf_sender)) ?w1 = (?b, ?w2)"
    by (simp add: os_call_def batch_world_def world_of_def bs)
  have buf: "?buf = store_bytes (nat (buffer_size bpf_sender)) (replicate 48 0) (ret ?b) (data ?b)"
    using two_records_stored by simp
  have sz: "ret ?b = int (records_len classic_abi ?recs)"
    by (simp add: two_records_len)
  have acc: "\<not> accepts picky_pdu ?buf (18, 2)" "accepts picky_pdu ?buf (38, 3)"
    by (simp_all add: accepts_def picky_pdu_def two_records_def)
  have reply: "payload_of (pdu_type picky_pdu) (drop 38 ?buf) 3 = [204, 221, 238]"
    by (simp add: payload_of_def two_records_def)
  note th = bsd_batched_demultiplexing [OF bsd sel rdy rd buf two_records_at sz refl refl,
        where pdu = picky_pdu and n = 0 and ff = payload_of
          and end_time = "\<lparr>tv_sec = 102, tv_usec = 0\<rparr>"]
  have lp: "recv_loop (Suc 0) bsd_cfg classic_abi bpf_sender picky_pdu payload_of [3]
         \<lparr>tv_sec = 102, tv_usec = 0\<rparr> ?tmo (replicate 48 0) batch_world
       = (Some (Some (payload_of (pdu_type picky_pdu) (drop 38 ?buf) 3)),
          ?w2\<lparr>log := log ?w2 @ [test_event (18, 2), test_event (38, 3)]\<rparr>)"
    using th by (simp add: two_records_spans acc del: recv_loop.simps spans_at.simps)
  show ?thesis
    using bsd two_records_at two_records_spans reply
    by (simp add: lp test_event_def del: recv_loop.simps records_at.simps spans_at.simps)
qed

section \<open>The receive-match loop: deadlines and failures\<close>




















lemma recv_loop_select_failed:
  assumes "os_call (Sys_select (max_fd_of fds + 1) fds timeout) w = (a, w1)" and "ret a = - 1"
  shows "recv_loop (Suc n) cfg abi s pdu ff fds end_time timeout buffer w = (Some None, w1)"
  using assms by simp




lemma minus_one_u32: "(- 1 :: u32) = 4294967295"
  by simp

lemma unat_minus_one_u32: "unat (- 1 :: u32) = 4294967295"
  by (simp only: minus_one_u32) simp

lemma lenient_accepts_stale:
  "matches_response lenient_pdu (69 # 0 # 0 # 40 # replicate 2044 0) (- 1)"
  by (simp add: lenient_pdu_def unat_minus_one_u32)

lemma payload_of_stale:
  "payload_of t (69 # 0 # 0 # 40 # replicate 2044 0) (- 1) = 69 # 0 # 0 # 40 # replicate 2044 0"
  by (simp add: payload_of_def unat_minus_one_u32)

lemma store_bytes_failed_read: "store_bytes 2048 buffer (- 1) d = buffer"
  by (simp add: store_bytes_def)


lemma quiet_fields:
  "ret quiet = 0" "ready quiet = []" "now quiet = \<lparr>tv_sec = 0, tv_usec = 0\<rparr>"
  by (simp_all add: quiet_def)

lemma raw_open_fields:
  "timeout_sec raw_open_sender = 2" "timeout_usec raw_open_sender = 0"
  by (simp_all add: raw_open_sender_def fresh_sender_def PacketSender_def)

lemma stale_calls:
  "os_call Sys_time stale_world
     = (quiet\<lparr>now := \<lparr>tv_sec = 100, tv_usec = 0\<rparr>\<rparr>, stale_world\<lparr>log := [Sys_time]\<rparr>)"
  "os_call (Sys_select 6 [5] t) (stale_world\<lparr>log := [Sys_time]\<rparr>)
     = (quiet\<lparr>ret := 1, ready := [5]\<rparr>, stale_world\<lparr>log := [Sys_time, Sys_select 6 [5] t]\<rparr>)"
  "os_call (Sys_recvfrom 5 2048) (stale_world\<lparr>log := [Sys_time, Sys_select 6 [5] t]\<rparr>)
     = (quiet\<lparr>ret := - 1, errstr := ''Network is down''\<rparr>,
        stale_world\<lparr>log := [Sys_time, Sys_select 6 [5] t, Sys_recvfrom 5 2048]\<rparr>)"
  "take 2048 (stack_bytes stale_world) = [69, 0, 0, 40] @ replicate 2044 0"
  by (simp_all add: os_call_def stale_world_def world_of_def)

lemma max_fd_of_five: "max_fd_of [5] + 1 = 6"
  by (simp add: max_fd_of_def)


lemma exact_calls:
  "os_call Sys_time exact_world
     = (quiet\<lparr>now := \<lparr>tv_sec = 100, tv_usec = 0\<rparr>\<rparr>, exact_world\<lparr>log := [Sys_time]\<rparr>)"
  "os_call (Sys_select 6 [5] t) (exact_world\<lparr>log := [Sys_time]\<rparr>)
     = (quiet, exact_world\<lparr>log := [Sys_time, Sys_select 6 [5] t]\<rparr>)"
  "os_call Sys_gettimeofday (exact_world\<lparr>log := [Sys_time, Sys_select 6 [5] t]\<rparr>)
     = (quiet\<lparr>now := \<lparr>tv_sec = 102, tv_usec = 0\<rparr>\<rparr>,
        exact_world\<lparr>log := [Sys_time, Sys_select 6 [5] t, Sys_gettimeofday]\<rparr>)"
  "os_call (Sys_select 6 [5] t') (exact_world\<lparr>log := [Sys_time, Sys_select 6 [5] t, Sys_gettimeofday]\<rparr>)
     = (quiet, exact_world\<lparr>log := [Sys_time, Sys_select 6 [5] t, Sys_gettimeofday,
                                      Sys_select 6 [5] t']\<rparr>)"
  "os_call Sys_gettimeofday
     (exact_world\<lparr>log := [Sys_time, Sys_select 6 [5] t, Sys_gettimeofday, Sys_select 6 [5] t']\<rparr>)
     = (quiet\<lparr>now := \<lparr>tv_sec = 103, tv_usec = 0\<rparr>\<rparr>,
        exact_world\<lparr>log := [Sys_time, Sys_select 6 [5] t, Sys_gettimeofday, Sys_select 6 [5] t',
                            Sys_gettimeofday]\<rparr>)"
  by (simp_all add: os_call_def exact_world_def world_of_def)






text \<open>
  Claim C4. A read that returns zero or less is claimed to give no candidate. Without BPF
  the result of \<^verbatim>\<open>recvfrom\<close> goes to the predicate unchecked: in \<open>stale_world\<close> the read
  fails with \<open>-1\<close>, the predicate is called on the untouched buffer with the length
  \<open>4294967295\<close> and accepts it, and the loop returns a reply built from all 2048 bytes. The BSD
  path does what is claimed (\<open>read_candidates_bsd_nothing\<close> below).
\<close>

theorem recv_loop_offers_failed_read:
  "recv_match_loop (Suc 0) linux_cfg classic_abi lenient_pdu payload_of [5]
       (raw_open_sender, stale_world)
     = (Some (Inr (Some ([69, 0, 0, 40] @ replicate 2044 0))),
        (raw_open_sender,
         stale_world\<lparr>log := [Sys_time, Sys_select 6 [5] \<lparr>tv_sec = 2, tv_usec = 0\<rparr>,
                             Sys_recvfrom 5 2048, Call_matches_response 0 4294967295]\<rparr>))"
  by (simp add: recv_match_loop_def alloc_buffer_def as_long_def linux_cfg_def raw_open_fields
        stale_calls max_fd_of_five read_candidates_def store_bytes_failed_read note_call_def
        lenient_accepts_stale payload_of_stale Let_def)

lemma read_candidates_bsd_nothing:
  assumes "platform cfg = BSD" and "os_call (Sys_read fd (buffer_size s)) w = (a, w1)"
      and "ret a \<le> 0"
  shows "read_candidates cfg abi s pdu ff fd buffer w = (No_match, buffer, w1)"
  using assms by (simp add: read_candidates_def store_bytes_def bpf_walk_stop)

section \<open>The receive-match loop: what reaches the caller\<close>

lemma icmp_slot: "(replicate 6 (- 1 :: int))[5 := 3] = [- 1, - 1, - 1, - 1, - 1, 3]"
  by (simp add: numeral_eq_Suc)

text \<open>
  Claim C5. The loop is claimed never to give its caller an error. The BPF variant builds
  its scratch buffer from \<^verbatim>\<open>buffer_size_\<close>, a member that the constructor of the sender does
  not initialise and that only \<^verbatim>\<open>open_l2_socket\<close> sets. On a fresh sender in which the value
  \<open>-1\<close> is found there, the receive of an ICMP reply opens its socket and enters
  \<^verbatim>\<open>recv_match_loop\<close>, where the constructor of the vector throws \<^verbatim>\<open>std::length_error\<close>;
  neither \<^verbatim>\<open>recv_match_loop\<close> nor \<^verbatim>\<open>recv_l3\<close> catches it, whatever the fuel.
\<close>

theorem recv_match_loop_propagates_length_error:
  "recv_l3 fuel bsd_cfg classic_abi picky_pdu payload_of ICMP_SOCKET (unset_sender, icmp_world)
     = Some (Inl Length_error,
             (unset_sender\<lparr>sockets := [- 1, - 1, - 1, - 1, - 1, 3]\<rparr>,
              icmp_world\<lparr>log := [Sys_socket AF_INET 1, Sys_setsockopt 3]\<rparr>))
   \<and> recv_match_loop fuel bsd_cfg classic_abi picky_pdu payload_of [3]
       (unset_sender\<lparr>sockets := [- 1, - 1, - 1, - 1, - 1, 3]\<rparr>,
        icmp_world\<lparr>log := [Sys_socket AF_INET 1, Sys_setsockopt 3]\<rparr>)
     = (Some (Inl Length_error),
        (unset_sender\<lparr>sockets := [- 1, - 1, - 1, - 1, - 1, 3]\<rparr>,
         icmp_world\<lparr>log := [Sys_socket AF_INET 1, Sys_setsockopt 3]\<rparr>))"
  by (simp add: recv_l3_def recv_match_loop_def alloc_buffer_def open_l3_socket_def find_type_def
      bsd_cfg_def unset_sender_def PacketSender_def icmp_world_def world_of_def os_call_def
      quiet_def IPPROTO_ICMP_def INVALID_RAW_SOCKET_def icmp_slot Let_def)


text \<open>
  The allocation of the scratch buffer is the only source of an error in the loop, and only
  the BPF variant allocates.
\<close>

lemma recv_match_loop_error_only_from_alloc:
  assumes "fst (recv_match_loop fuel cfg abi pdu ff fds (s, w)) = Some (Inl e)"
  shows "fst (alloc_buffer cfg s w) = Inl e"
  using assms
  by (auto simp add: recv_match_loop_def Let_def split: prod.splits sum.splits option.splits)

lemma alloc_buffer_error:
  "fst (alloc_buffer cfg s w) = Inl e \<longleftrightarrow>
     platform cfg = BSD
     \<and> (buffer_size s < 0 \<and> e = Length_error
        \<or> 0 < buffer_size s \<and> ret (env w (length (log w))) = - 1 \<and> e = Bad_alloc)"
  by (auto simp add: alloc_buffer_def os_call_def Let_def)

text \<open>
  On Windows the loop compares the deadline with a local that it never writes. Where that
  local holds zeros, the remaining time is the deadline itself at every iteration and the
  loop does not return, however much fuel it is given, as long as nothing is ready.
\<close>

lemma long32_small: "long32 0 = 0" "long32 2 = 2" "long32 102 = 102" "long32 100 = 100"
  by (simp_all add: long32_def)

lemma long32_big: "long32 2147483648 = - 2147483648"
  by (simp add: long32_def)

lemma subtract_win_zero:
  "timeval_subtract_win \<lparr>tv_sec = 102, tv_usec = 0\<rparr> \<lparr>tv_sec = 0, tv_usec = 0\<rparr>
     = (\<lparr>tv_sec = 102, tv_usec = 0\<rparr>, \<lparr>tv_sec = 0, tv_usec = 0\<rparr>, 0)"
  by (simp add: timeval_subtract_win_def long32_small word_sless_alt)

lemma recv_loop_windows_spins:
  assumes "\<forall>k. ret (env w k) = 0" and "stack_timeval w = \<lparr>tv_sec = 0, tv_usec = 0\<rparr>"
  shows "fst (recv_loop n windows_cfg abi s pdu ff fds \<lparr>tv_sec = 102, tv_usec = 0\<rparr> timeout
                buffer w) = None"
  using assms
proof (induction n arbitrary: timeout w)
  case 0
  then show ?case by simp
next
  case (Suc n)
  let ?w1 = "w\<lparr>log := log w @ [Sys_select (max_fd_of fds + 1) fds timeout]\<rparr>"
  have e: "\<forall>k. ret (env ?w1 k) = 0" "stack_timeval ?w1 = \<lparr>tv_sec = 0, tv_usec = 0\<rparr>"
    using Suc.prems by simp_all
  show ?case
    using Suc.prems Suc.IH [OF e]
    by (simp add: os_call_def current_time_def windows_cfg_def timeval_subtract_on_def
          long32_small subtract_win_zero)
qed

lemma exact_world_idle:
  "\<forall>k. ret (env (exact_world\<lparr>log := l\<rparr>) k) = 0"
  "stack_timeval (exact_world\<lparr>log := l\<rparr>) = \<lparr>tv_sec = 0, tv_usec = 0\<rparr>"
  by (simp_all add: exact_world_def world_of_def quiet_def)

lemma recv_match_loop_windows_never_returns:
  "fst (recv_match_loop n windows_cfg classic_abi picky_pdu payload_of [5]
          (raw_open_sender, exact_world)) = None"
proof -
  obtain r w2 where rl: "recv_loop n windows_cfg classic_abi raw_open_sender picky_pdu payload_of
      [5] \<lparr>tv_sec = 102, tv_usec = 0\<rparr> \<lparr>tv_sec = 2, tv_usec = 0\<rparr>
      (take 2048 (stack_bytes exact_world)) (exact_world\<lparr>log := [Sys_time]\<rparr>) = (r, w2)"
    by (cases "recv_loop n windows_cfg classic_abi raw_open_sender picky_pdu payload_of
      [5] \<lparr>tv_sec = 102, tv_usec = 0\<rparr> \<lparr>tv_sec = 2, tv_usec = 0\<rparr>
      (take 2048 (stack_bytes exact_world)) (exact_world\<lparr>log := [Sys_time]\<rparr>)")
  have n: "r = None"
    using recv_loop_windows_spins [OF exact_world_idle [of "[Sys_time]"], of n classic_abi
        raw_open_sender picky_pdu payload_of "[5]" "\<lparr>tv_sec = 2, tv_usec = 0\<rparr>"
        "take 2048 (stack_bytes exact_world)"] rl
    by simp
  have p: "platform windows_cfg = Windows"
    by (simp add: windows_cfg_def)
  show ?thesis
    using rl n
    by (simp add: recv_match_loop_def alloc_buffer_def as_long_def p raw_open_fields
          exact_calls(1) long32_small Let_def)
qed

text \<open>
  On Windows a \<^verbatim>\<open>long\<close> of 32 bits receives the configured \<^verbatim>\<open>uint32_t\<close>: a timeout of \<open>2\<^sup>3\<^sup>1\<close>
  seconds reaches \<^verbatim>\<open>select\<close> as a negative one.
\<close>

lemma patient_fields:
  "timeout_sec patient_sender = 2147483648" "timeout_usec patient_sender = 0"
  by (simp_all add: patient_sender_def PacketSender_def)

lemma subtract_win_negative:
  "timeval_subtract_win \<lparr>tv_sec = - 2147483648, tv_usec = 0\<rparr> \<lparr>tv_sec = 0, tv_usec = 0\<rparr>
     = (\<lparr>tv_sec = - 2147483648, tv_usec = 0\<rparr>, \<lparr>tv_sec = 0, tv_usec = 0\<rparr>, 1)"
  by (simp add: timeval_subtract_win_def long32_small long32_def word_sless_alt)

lemma recv_match_loop_windows_negative_timeout:
  "recv_match_loop (Suc 0) windows_cfg classic_abi picky_pdu payload_of [5]
       (patient_sender, quiet_world)
     = (Some (Inr None),
        (patient_sender,
         quiet_world\<lparr>log := [Sys_time,
                             Sys_select 6 [5] \<lparr>tv_sec = - 2147483648, tv_usec = 0\<rparr>]\<rparr>))"
  by (simp add: recv_match_loop_def alloc_buffer_def as_long_def windows_cfg_def patient_fields
        quiet_world_def world_of_def os_call_def quiet_fields max_fd_of_five current_time_def
        timeval_subtract_on_def long32_small long32_big subtract_win_negative Let_def)
end
